theory Spec2Isabelle
  imports Complex_Main
begin

section \<open>Trading foundation: a shallow embedding of the simulation engine\<close>

text \<open>
  The definitions below follow \<^verbatim>\<open>scripts/trading_foundation.py\<close>. Python's unbounded
  integers are \<^typ>\<open>int\<close>; a finite float64 value is a \<^typ>\<open>real\<close>; pandas' NaN is
  \<^term>\<open>None\<close> in a \<^typ>\<open>real option\<close>; a timestamp is the integer number of
  milliseconds the CSV holds. The arithmetic on floats is the arithmetic of the reals,
  except where its rounding decides what the program does: the conversion of an integer
  argument through a float, the split of the training rows, and the shift of the pair
  spread use the rounding of the next subsection, and the standard deviation of the
  equity returns is a parameter.
\<close>

subsection \<open>Float64 rounding and Python's conversions\<close>

text \<open>
  Rounding to the nearest integer, a tie going to the even neighbour (the rule of
  Python's \<^verbatim>\<open>round\<close> and of IEEE 754).
\<close>

definition round_half_even :: "real \<Rightarrow> int" where
  "round_half_even x =
     (let f = \<lfloor>x\<rfloor>; d = x - of_int f in
      if d < 1 / 2 then f
      else if d > 1 / 2 then f + 1
      else if even f then f else f + 1)"

text \<open>
  The float64 nearest to a real: a significand of 53 bits, so the spacing of the floats
  around \<open>x\<close> is \<open>2\<^sup>e\<^sup>-\<^sup>5\<^sup>2\<close> with \<open>e\<close> the binary exponent of \<open>x\<close>, not below
  \<open>-1022\<close> (the subnormal range). Overflow to infinity is not represented: the values
  concerned stay far below \<open>2\<^sup>1\<^sup>0\<^sup>2\<^sup>4\<close>.
\<close>

definition float_exponent :: "real \<Rightarrow> int" where
  "float_exponent x = max (\<lfloor>log 2 \<bar>x\<bar>\<rfloor>) (- 1022)"

definition float_ulp :: "real \<Rightarrow> real" where
  "float_ulp x =
     (let e = float_exponent x in
      if e \<ge> 52 then 2 ^ nat (e - 52) else 1 / 2 ^ nat (52 - e))"

definition fl_round :: "real \<Rightarrow> real" where
  "fl_round x = (if x = 0 then 0 else of_int (round_half_even (x / float_ulp x)) * float_ulp x)"

text \<open>The float64 operations \<^verbatim>\<open>+\<close>, \<^verbatim>\<open>-\<close> and \<^verbatim>\<open>*\<close>: the exact result, rounded.\<close>

definition fl_add :: "real \<Rightarrow> real \<Rightarrow> real" where
  "fl_add a b = fl_round (a + b)"

definition fl_sub :: "real \<Rightarrow> real \<Rightarrow> real" where
  "fl_sub a b = fl_round (a - b)"

definition fl_mul :: "real \<Rightarrow> real \<Rightarrow> real" where
  "fl_mul a b = fl_round (a * b)"

text \<open>Python's \<^verbatim>\<open>int(x)\<close> on a float: truncation towards zero.\<close>

definition py_int :: "real \<Rightarrow> int" where
  "py_int x = (if x \<ge> 0 then \<lfloor>x\<rfloor> else \<lceil>x\<rceil>)"

text \<open>
  \<^verbatim>\<open>int(_to_float(x, d))\<close> for an integer \<open>x\<close> (lines 600-604): \<^verbatim>\<open>float(x)\<close> rounds to
  the nearest float64 and raises \<^verbatim>\<open>OverflowError\<close> when that is out of range, in which
  case \<^verbatim>\<open>_to_float\<close> returns the default.
\<close>

definition int_via_float :: "int \<Rightarrow> int \<Rightarrow> int" where
  "int_via_float d x =
     (if \<bar>x\<bar> < 2 ^ 1024 - 2 ^ 970 then py_int (fl_round (of_int x)) else d)"

text \<open>\<^verbatim>\<open>str.lower\<close> on the ASCII letters.\<close>

definition lower :: "string \<Rightarrow> string" where
  "lower = map (\<lambda>c. case map_of (zip ''ABCDEFGHIJKLMNOPQRSTUVWXYZ''
                                       ''abcdefghijklmnopqrstuvwxyz'') c of
                        Some l \<Rightarrow> l | None \<Rightarrow> c)"

subsection \<open>Configuration: the params dictionary of \<^verbatim>\<open>run_backtest\<close>\<close>

text \<open>The values argparse hands to \<^verbatim>\<open>run_backtest\<close> (typed by the parser's \<^verbatim>\<open>type=\<close>).\<close>

record backtest_args =
  arg_bb_window :: int
  arg_bb_std :: real
  arg_rsi_period :: int
  arg_rsi_buy :: real
  arg_rsi_sell :: real
  arg_strategy_mode :: string
  arg_momentum_fast :: int
  arg_momentum_slow :: int
  arg_trend_threshold :: real
  arg_use_regime :: bool
  arg_max_portfolio_risk :: real
  arg_ml_enabled :: bool
  arg_model_type :: string
  arg_ml_horizon :: int
  arg_ml_train_ratio :: real
  arg_ml_confidence :: real
  arg_sentiment_threshold :: real
  arg_atr_window :: int
  arg_fee_rate :: real
  arg_stop_atr_mult :: real
  arg_strategy_correlation_cap :: real
  arg_strategy_correlation_window :: int
  arg_statarb_window :: int
  arg_statarb_z_entry :: real
  arg_statarb_z_exit :: real
  arg_statarb_z_stop :: real
  arg_position_size :: real
  arg_max_drawdown :: real
  arg_initial_cash :: real
  arg_timeframe :: string

record params =
  bb_window :: int
  bb_std :: real
  rsi_period :: int
  rsi_buy :: real
  rsi_sell :: real
  strategy_mode :: string
  momentum_fast :: int
  momentum_slow :: int
  trend_threshold :: real
  use_regime :: bool
  max_portfolio_risk :: real
  ml_enabled :: bool
  ml_model_type :: string
  ml_horizon :: int
  ml_train_ratio :: real
  ml_confidence :: real
  sentiment_threshold :: real
  atr_window :: int
  fee_rate :: real
  stop_atr_mult :: real
  strategy_correlation_cap :: real
  strategy_correlation_window :: int
  statarb_window :: int
  statarb_z_entry :: real
  statarb_z_exit :: real
  statarb_z_stop :: real
  position_size :: real
  max_drawdown :: real

definition safe_position_size :: "real \<Rightarrow> real" where
  "safe_position_size v = (if v \<le> 0 then 0.01 else if v > 1 then 1.0 else v)"

definition known_modes :: "string list" where
  "known_modes = [''adaptive'', ''mean-reversion'', ''momentum'', ''momentum-only'', ''stat-arb'']"

text \<open>
  Lines 1704-1743: the mode, lower-cased and checked against the known modes, and the
  dictionary literal \<^verbatim>\<open>params = {...}\<close>. The windows read with
  \<^verbatim>\<open>int(_to_float(x, d))\<close> pass through a float; the two trend windows are read with
  \<^verbatim>\<open>int(x)\<close>.
\<close>

definition initial_params :: "backtest_args \<Rightarrow> params" where
  "initial_params a = \<lparr>
     bb_window = max 2 (int_via_float 20 (arg_bb_window a)),
     bb_std = arg_bb_std a,
     rsi_period = max 2 (int_via_float 14 (arg_rsi_period a)),
     rsi_buy = arg_rsi_buy a,
     rsi_sell = arg_rsi_sell a,
     strategy_mode =
       (if lower (arg_strategy_mode a) \<in> set known_modes
        then lower (arg_strategy_mode a) else ''adaptive''),
     momentum_fast = max 2 (arg_momentum_fast a),
     momentum_slow = max 2 (arg_momentum_slow a),
     trend_threshold = max 0.0001 (arg_trend_threshold a),
     use_regime = arg_use_regime a,
     max_portfolio_risk = min 1.0 (max 0.0 (arg_max_portfolio_risk a)),
     ml_enabled = arg_ml_enabled a,
     ml_model_type = arg_model_type a,
     ml_horizon = max 1 (int_via_float 4 (arg_ml_horizon a)),
     ml_train_ratio = arg_ml_train_ratio a,
     ml_confidence = arg_ml_confidence a,
     sentiment_threshold = arg_sentiment_threshold a,
     atr_window = max 2 (int_via_float 14 (arg_atr_window a)),
     fee_rate = arg_fee_rate a,
     stop_atr_mult = arg_stop_atr_mult a,
     strategy_correlation_cap = arg_strategy_correlation_cap a,
     strategy_correlation_window =
       max 20 (int_via_float 120 (arg_strategy_correlation_window a)),
     statarb_window = max 20 (int_via_float 100 (arg_statarb_window a)),
     statarb_z_entry = arg_statarb_z_entry a,
     statarb_z_exit = \<bar>arg_statarb_z_exit a\<bar>,
     statarb_z_stop = \<bar>arg_statarb_z_stop a\<bar>,
     position_size = safe_position_size (arg_position_size a),
     max_drawdown = arg_max_drawdown a \<rparr>"

text \<open>
  Lines 1745-1746:
  \<^verbatim>\<open>if params["momentum_fast"] >= params["momentum_slow"]:
      params["momentum_fast"] = max(2, int(params["momentum_slow"]) - 1)\<close>
\<close>

definition build_params :: "backtest_args \<Rightarrow> params" where
  "build_params a =
     (let p = initial_params a in
      if momentum_fast p \<ge> momentum_slow p
      then p\<lparr>momentum_fast := max 2 (momentum_slow p - 1)\<rparr>
      else p)"

definition example_args :: backtest_args where
  "example_args = \<lparr>
     arg_bb_window = 20, arg_bb_std = 2, arg_rsi_period = 14, arg_rsi_buy = 30,
     arg_rsi_sell = 70, arg_strategy_mode = ''adaptive'', arg_momentum_fast = 50,
     arg_momentum_slow = 200, arg_trend_threshold = 0.0025, arg_use_regime = True,
     arg_max_portfolio_risk = 0.05, arg_ml_enabled = False,
     arg_model_type = ''random_forest'', arg_ml_horizon = 4, arg_ml_train_ratio = 0.7,
     arg_ml_confidence = 0.55, arg_sentiment_threshold = 0, arg_atr_window = 14,
     arg_fee_rate = 0.0004, arg_stop_atr_mult = 2, arg_strategy_correlation_cap = 0.7,
     arg_strategy_correlation_window = 120, arg_statarb_window = 100,
     arg_statarb_z_entry = 2, arg_statarb_z_exit = 0, arg_statarb_z_stop = 3.5,
     arg_position_size = 0.02, arg_max_drawdown = 0.1, arg_initial_cash = 10000,
     arg_timeframe = ''1h'' \<rparr>"

subsection \<open>Numeric helpers\<close>

text \<open>
  Python's \<^verbatim>\<open>round(x, n)\<close>: to the nearest multiple of \<open>10\<^sup>-\<^sup>n\<close>, a tie going to the
  even neighbour.
\<close>

definition py_round :: "nat \<Rightarrow> real \<Rightarrow> real" where
  "py_round n x = of_int (round_half_even (x * 10 ^ n)) / 10 ^ n"

definition mean :: "real list \<Rightarrow> real" where
  "mean xs = sum_list xs / real (length xs)"

datatype py_error = ZeroDivisionError | IndexError | ClassifierError | ExchangeError

subsection \<open>Rows, trades, risk events and the simulation state\<close>

text \<open>
  One row of the data frame the bar loop iterates: a bar and its nine indicators, all
  defined (the rows with an undefined one were dropped before).
\<close>

record row =
  timestamp :: int
  high :: real
  low :: real
  close :: real
  volume :: real
  sma :: real
  std :: real
  bb_upper :: real
  bb_lower :: real
  rsi :: real
  atr :: real
  ma_fast :: real
  ma_slow :: real
  trend_strength :: real

text \<open>
  The dictionaries appended to \<^verbatim>\<open>trades\<close>: an opening trade has an \<^verbatim>\<open>amount\<close> and no
  \<^verbatim>\<open>pnl\<close>, a closing trade the converse.
\<close>

record trade =
  side :: string
  trade_ts :: int
  price :: real
  qty :: real
  amount :: "real option"
  pnl :: "real option"
  pnl_pct :: "real option"
  reason :: string
  order_type :: string
  position_open_timestamp :: "int option"

datatype risk_event =
    Drawdown_circuit_breaker int real real
  | Strategy_correlation_block int real real
  | Statarb_entry_block int "real option"

record risk_controls =
  drawdown_circuit_enabled :: bool
  drawdown_circuit_level :: real
  drawdown_circuit_hits :: nat
  rc_strategy_correlation_cap :: real
  rc_strategy_correlation_window :: int
  strategy_correlation_hits :: nat
  max_strategy_correlation_abs :: real

text \<open>
  The local variables of \<^verbatim>\<open>run_backtest\<close> that the loop and its two closures mutate.
  \<^verbatim>\<open>halt_reason\<close> keeps the two numbers the formatted message is made of.
\<close>

record sim_state =
  cash :: real
  peak_equity :: real
  position_qty :: real
  position_entry :: real
  position_entry_ts :: "int option"
  position_fees :: real
  halted :: bool
  halt_reason :: "(real \<times> real) option"
  equity_curve :: "real list"
  trades :: "trade list"
  history_momentum :: "real list"
  history_mean_reversion :: "real list"
  risk_events :: "risk_event list"
  controls :: risk_controls

definition initial_state :: "params \<Rightarrow> real \<Rightarrow> sim_state" where
  "initial_state p initial_cash = \<lparr>
     cash = initial_cash,
     peak_equity = initial_cash,
     position_qty = 0,
     position_entry = 0,
     position_entry_ts = None,
     position_fees = 0,
     halted = False,
     halt_reason = None,
     equity_curve = [],
     trades = [],
     history_momentum = [],
     history_mean_reversion = [],
     risk_events = [],
     controls = \<lparr>
       drawdown_circuit_enabled = (max_drawdown p > 0),
       drawdown_circuit_level = max_drawdown p,
       drawdown_circuit_hits = 0,
       rc_strategy_correlation_cap = strategy_correlation_cap p,
       rc_strategy_correlation_window = strategy_correlation_window p,
       strategy_correlation_hits = 0,
       max_strategy_correlation_abs = 0 \<rparr> \<rparr>"

text \<open>The closure \<^verbatim>\<open>_open_trade\<close> (lines 1847-1866).\<close>

definition open_trade :: "int \<Rightarrow> real \<Rightarrow> real \<Rightarrow> real \<Rightarrow> string \<Rightarrow> sim_state \<Rightarrow> sim_state" where
  "open_trade ts px q fee rsn s =
     s\<lparr>cash := cash s - (q * px + fee),
       position_qty := position_qty s + q,
       position_entry := px,
       position_entry_ts := Some ts,
       position_fees := fee,
       trades := trades s @
         [\<lparr>side = (if q \<ge> 0 then ''buy'' else ''sell''),
           trade_ts = ts,
           price = py_round 8 px,
           qty = py_round 8 q,
           amount = Some (py_round 8 (q * px)),
           pnl = None,
           pnl_pct = None,
           reason = rsn,
           order_type = ''market'',
           position_open_timestamp = Some ts\<rparr>]\<rparr>"

text \<open>The closure \<^verbatim>\<open>_close_trade\<close> (lines 1868-1896); it returns at once on a flat position.\<close>

definition close_trade :: "params \<Rightarrow> int \<Rightarrow> real \<Rightarrow> string \<Rightarrow> sim_state \<Rightarrow> sim_state" where
  "close_trade p ts px rsn s =
     (if position_qty s = 0 then s
      else
        let proceeds = position_qty s * px;
            fee = \<bar>proceeds\<bar> * fee_rate p;
            pnl_v = (px - position_entry s) * position_qty s - position_fees s - fee;
            pct = (if position_entry s > 0 then (px - position_entry s) / position_entry s else 0);
            pct' = (if position_qty s < 0 then pct * (- 1) else pct)
        in s\<lparr>cash := cash s + (proceeds - fee),
             trades := trades s @
               [\<lparr>side = (if position_qty s > 0 then ''sell'' else ''buy''),
                 trade_ts = ts,
                 price = py_round 8 px,
                 qty = py_round 8 (position_qty s),
                 amount = None,
                 pnl = Some (py_round 8 pnl_v),
                 pnl_pct = Some (py_round 6 pct'),
                 reason = rsn,
                 order_type = ''market'',
                 position_open_timestamp = position_entry_ts s\<rparr>],
             position_qty := 0,
             position_entry := 0,
             position_entry_ts := None,
             position_fees := 0\<rparr>)"

subsection \<open>The correlation guard\<close>

definition nunique :: "real list \<Rightarrow> nat" where
  "nunique xs = length (remdups xs)"

text \<open>
  \<^verbatim>\<open>Series.corr\<close> (Pearson). With a zero denominator pandas yields NaN, which
  \<^verbatim>\<open>_safe_correlation\<close> turns into \<^verbatim>\<open>None\<close>.
\<close>

definition pearson :: "real list \<Rightarrow> real list \<Rightarrow> real option" where
  "pearson xs ys =
     (let mx = mean xs; my = mean ys;
          sxy = sum_list (map2 (\<lambda>x y. (x - mx) * (y - my)) xs ys);
          sxx = sum_list (map (\<lambda>x. (x - mx)\<^sup>2) xs);
          syy = sum_list (map (\<lambda>y. (y - my)\<^sup>2) ys)
      in if sxx * syy = 0 then None else Some (sxy / sqrt (sxx * syy)))"

definition safe_correlation :: "real list \<Rightarrow> real list \<Rightarrow> real option" where
  "safe_correlation left right =
     (if length left < 2 \<or> length left \<noteq> length right then None
      else if nunique left < 2 \<or> nunique right < 2 then None
      else pearson left right)"

text \<open>The slice \<^verbatim>\<open>xs[-window:]\<close> for a positive window.\<close>

definition last_n :: "nat \<Rightarrow> 'a list \<Rightarrow> 'a list" where
  "last_n n xs = drop (length xs - n) xs"

subsection \<open>One bar of the loop, in the order of the source\<close>

text \<open>
  Lines 1915-1937: mark the equity, update the peak, compute the drawdown, trip the
  drawdown circuit breaker, append the equity to the curve.
\<close>

definition mark_equity :: "params \<Rightarrow> row \<Rightarrow> sim_state \<Rightarrow> sim_state" where
  "mark_equity p r s =
     (let equity = cash s + position_qty s * close r;
          s1 = (if equity > peak_equity s then s\<lparr>peak_equity := equity\<rparr> else s);
          drawdown = (if peak_equity s1 > 0 then 1 - equity / peak_equity s1 else 0);
          s2 =
            (if \<not> halted s1 \<and> drawdown \<ge> max_drawdown p then
               let a = (if position_qty s1 > 0
                        then close_trade p (timestamp r) (close r) ''drawdown-halt'' s1 else s1);
                   b = (if position_qty a < 0
                        then close_trade p (timestamp r) (close r) ''drawdown-halt'' a else a)
               in b\<lparr>halted := True,
                    halt_reason := Some (drawdown, max_drawdown p),
                    controls := (controls b)
                      \<lparr>drawdown_circuit_hits := drawdown_circuit_hits (controls b) + 1\<rparr>,
                    risk_events := risk_events b @
                      [Drawdown_circuit_breaker (timestamp r) (py_round 8 equity)
                         (py_round 6 drawdown)]\<rparr>
             else s1)
      in s2\<lparr>equity_curve := equity_curve s2 @ [equity]\<rparr>)"

text \<open>
  Lines 1941-1948: the two raw signals are computed and appended to their histories.
\<close>

definition push_signals :: "params \<Rightarrow> row \<Rightarrow> sim_state \<Rightarrow> sim_state" where
  "push_signals p r s =
     (let mean_reversion_signal =
            (of_bool (close r \<le> bb_lower r \<and> rsi r < rsi_buy p) :: real)
            - of_bool (close r \<ge> bb_upper r \<and> rsi r > rsi_sell p);
          momentum_signal =
            (of_bool (ma_fast r > ma_slow r \<and> close r > ma_fast r \<and> rsi r > rsi_buy p) :: real)
            - of_bool (ma_fast r \<le> ma_slow r \<or> rsi r > rsi_sell p + 5)
      in s\<lparr>history_mean_reversion := history_mean_reversion s @ [mean_reversion_signal],
            history_momentum := history_momentum s @ [momentum_signal]\<rparr>)"

text \<open>Lines 1950-1956: the correlation of the trailing window, once the history fills it.\<close>

definition current_correlation :: "params \<Rightarrow> sim_state \<Rightarrow> real option" where
  "current_correlation p s =
     (let window = nat (strategy_correlation_window p) in
      if length (history_momentum s) \<ge> window
      then safe_correlation (last_n window (history_momentum s))
             (last_n window (history_mean_reversion s))
      else None)"

text \<open>
  Lines 1957-1976: the running maximum and the block. The result pairs the state with
  \<^verbatim>\<open>correlation_blocked\<close>.
\<close>

definition apply_correlation :: "params \<Rightarrow> row \<Rightarrow> real \<Rightarrow> sim_state \<Rightarrow> sim_state \<times> bool" where
  "apply_correlation p r corr s =
     (let s2 = s\<lparr>controls := (controls s)
                 \<lparr>max_strategy_correlation_abs :=
                    max (max_strategy_correlation_abs (controls s)) \<bar>corr\<bar>\<rparr>\<rparr>
      in if strategy_correlation_cap p > 0 \<and> \<bar>corr\<bar> > strategy_correlation_cap p
         then (s2\<lparr>controls := (controls s2)
                   \<lparr>strategy_correlation_hits := strategy_correlation_hits (controls s2) + 1\<rparr>,
                  risk_events := risk_events s2 @
                    [Strategy_correlation_block (timestamp r) (py_round 8 corr)
                       (strategy_correlation_cap p)]\<rparr>, True)
         else (s2, False))"

definition correlation_guard :: "params \<Rightarrow> row \<Rightarrow> sim_state \<Rightarrow> sim_state \<times> bool" where
  "correlation_guard p r s =
     (case current_correlation p (push_signals p r s) of
        None \<Rightarrow> (push_signals p r s, False)
      | Some corr \<Rightarrow> apply_correlation p r corr (push_signals p r s))"

text \<open>Lines 1978-1980: the mode of this bar.\<close>

definition resolve_mode :: "params \<Rightarrow> row \<Rightarrow> string" where
  "resolve_mode p r =
     (let trending = (ma_fast r > ma_slow r \<and> trend_strength r \<ge> trend_threshold p) in
      if use_regime p \<and> strategy_mode p = ''adaptive''
      then (if trending then ''momentum'' else ''mean-reversion'')
      else strategy_mode p)"

record signals =
  entry_signal :: bool
  exit_signal :: bool
  stop_loss_signal :: bool
  entry_qty_sign :: real

definition zscore :: "row \<Rightarrow> real" where
  "zscore r =
     (let spread_std = (if std r \<noteq> 0 then std r else 0) in
      if spread_std > 0 then (close r - sma r) / spread_std else 0)"

text \<open>Lines 1982-2025: the if/elif chain over the mode.\<close>

definition mode_signals ::
    "params \<Rightarrow> string \<Rightarrow> bool \<Rightarrow> real \<Rightarrow> bool \<Rightarrow> row \<Rightarrow> sim_state \<Rightarrow> signals" where
  "mode_signals p mode correlation_blocked ml_prob sentiment_ok r s =
     (if mode = ''mean-reversion'' then
        \<lparr>entry_signal = (close r \<le> bb_lower r \<and> rsi r < rsi_buy p),
         exit_signal = (close r \<ge> bb_upper r \<and> rsi r > rsi_sell p),
         stop_loss_signal = False, entry_qty_sign = 0\<rparr>
      else if mode = ''momentum'' \<or> mode = ''momentum-only'' then
        \<lparr>entry_signal = (ma_fast r > ma_slow r \<and> close r > ma_fast r \<and> rsi r > rsi_buy p),
         exit_signal = (ma_fast r \<le> ma_slow r \<or> rsi r > rsi_sell p + 5),
         stop_loss_signal = False, entry_qty_sign = 0\<rparr>
      else if mode = ''stat-arb'' then
        let z = zscore r;
            long0 = (z \<le> - statarb_z_entry p);
            short0 = (z \<ge> statarb_z_entry p);
            long1 = (if ml_enabled p then long0 \<and> ml_prob \<ge> ml_confidence p else long0);
            short1 = (if ml_enabled p then short0 \<and> 1 - ml_prob \<ge> ml_confidence p else short0);
            long2 = (if correlation_blocked then False else long1);
            short2 = (if correlation_blocked then False else short1);
            long_entry = (long2 \<and> sentiment_ok);
            short_entry = (short2 \<and> sentiment_ok);
            sign = (if short_entry \<and> \<not> long_entry then - 1 else if long_entry then 1 else 0)
        in \<lparr>entry_signal = (sign \<noteq> 0),
             exit_signal = ((position_qty s > 0 \<and> z \<ge> statarb_z_exit p)
                            \<or> (position_qty s < 0 \<and> z \<le> - statarb_z_exit p)),
             stop_loss_signal = ((position_qty s > 0 \<and> z \<ge> statarb_z_stop p)
                                 \<or> (position_qty s < 0 \<and> z \<le> - statarb_z_stop p)),
             entry_qty_sign = sign\<rparr>
      else
        \<lparr>entry_signal = (close r \<le> bb_lower r \<and> rsi r < rsi_buy p),
         exit_signal = (close r \<ge> bb_upper r \<and> rsi r > rsi_sell p),
         stop_loss_signal = False, entry_qty_sign = 0\<rparr>)"

text \<open>Lines 2027-2040: the correlation block and the overlay gates on the signals.\<close>

definition gate_signals ::
    "params \<Rightarrow> string \<Rightarrow> bool \<Rightarrow> real \<Rightarrow> bool \<Rightarrow> signals \<Rightarrow> signals" where
  "gate_signals p mode correlation_blocked ml_prob sentiment_ok sg =
     (let sg1 = (if correlation_blocked
                    \<and> mode \<in> {''momentum'', ''mean-reversion'', ''momentum-only''}
                 then sg\<lparr>entry_signal := False\<rparr> else sg)
      in if ml_enabled p \<and> ml_model_type p \<in> {''random_forest'', ''xgboost'', ''logistic''} then
           (if ml_confidence p \<ge> 0 then
              (let sg2 = (if mode \<noteq> ''stat-arb''
                          then sg1\<lparr>entry_signal :=
                                 (entry_signal sg1 \<and> ml_prob \<ge> ml_confidence p \<and> sentiment_ok)\<rparr>
                          else sg1)
               in sg2\<lparr>exit_signal := (exit_signal sg2 \<or> ml_prob \<le> 1 - ml_confidence p)\<rparr>)
            else
              (if mode \<noteq> ''stat-arb''
               then sg1\<lparr>entry_signal := (entry_signal sg1 \<and> sentiment_ok)\<rparr> else sg1))
         else
           (if mode \<noteq> ''stat-arb''
            then sg1\<lparr>entry_signal := (entry_signal sg1 \<and> sentiment_ok)\<rparr> else sg1))"

definition bar_signals ::
    "params \<Rightarrow> bool \<Rightarrow> real \<Rightarrow> real \<Rightarrow> row \<Rightarrow> sim_state \<Rightarrow> signals" where
  "bar_signals p correlation_blocked ml_prob sentiment_score r s =
     (let sentiment_ok = (sentiment_score \<ge> sentiment_threshold p);
          mode = resolve_mode p r
      in gate_signals p mode correlation_blocked ml_prob sentiment_ok
           (mode_signals p mode correlation_blocked ml_prob sentiment_ok r s))"

text \<open>
  Lines 2042-2064: the exits of an open position. \<^term>\<open>Some\<close> is a close followed by
  \<^verbatim>\<open>continue\<close>; \<^term>\<open>None\<close> falls through. The block for a long position
  (lines 2043-2053) comes first, the one for a short position (lines 2054-2064) second.
\<close>

definition long_exit :: "params \<Rightarrow> signals \<Rightarrow> row \<Rightarrow> sim_state \<Rightarrow> sim_state option" where
  "long_exit p sg r s =
     (if atr r > 0 \<and> position_qty s > 0 then
        (let stop_price = position_entry s - stop_atr_mult p * atr r in
         if low r \<le> stop_price
         then Some (close_trade p (timestamp r) (max stop_price 0.00000001) ''stop_loss_atr'' s)
         else if stop_loss_signal sg
         then Some (close_trade p (timestamp r) (max stop_price 0.00000001) ''statarb_stop_loss'' s)
         else if exit_signal sg
         then Some (close_trade p (timestamp r) (close r) ''exit_signal'' s)
         else None)
      else None)"

definition short_exit :: "params \<Rightarrow> signals \<Rightarrow> row \<Rightarrow> sim_state \<Rightarrow> sim_state option" where
  "short_exit p sg r s =
     (if atr r > 0 \<and> position_qty s < 0 then
        (let stop_price = position_entry s + stop_atr_mult p * atr r in
         if high r \<ge> stop_price
         then Some (close_trade p (timestamp r) (max stop_price 0.00000001) ''stop_loss_atr_short'' s)
         else if stop_loss_signal sg
         then Some (close_trade p (timestamp r) (max stop_price 0.00000001) ''statarb_stop_loss'' s)
         else if exit_signal sg
         then Some (close_trade p (timestamp r) (close r) ''exit_signal'' s)
         else None)
      else None)"

definition manage_position :: "params \<Rightarrow> signals \<Rightarrow> row \<Rightarrow> sim_state \<Rightarrow> sim_state option" where
  "manage_position p sg r s =
     (if \<not> halted s \<and> position_qty s \<noteq> 0 then
        (case long_exit p sg r s of
           Some s' \<Rightarrow> Some s'
         | None \<Rightarrow> short_exit p sg r s)
      else None)"

text \<open>
  Lines 2066-2097: the entry. In the modes other than stat-arb the quantity is
  \<^verbatim>\<open>allocation / close\<close> with no guard, so a close of zero raises.
\<close>

definition try_entry ::
    "params \<Rightarrow> string \<Rightarrow> signals \<Rightarrow> bool \<Rightarrow> row \<Rightarrow> sim_state \<Rightarrow> py_error + sim_state" where
  "try_entry p mode sg correlation_blocked r s =
     (if position_qty s = 0 \<and> entry_signal sg then
        (if mode = ''stat-arb'' \<and> correlation_blocked then Inr s
         else
           let allocation = min (cash s * max_portfolio_risk p) (cash s * position_size p) in
           if allocation > 0 then
             (if mode = ''stat-arb'' then
                (if \<bar>close r\<bar> < 0.000001
                 then Inr (s\<lparr>risk_events := risk_events s @
                             [Statarb_entry_block (timestamp r) (Some (close r))]\<rparr>)
                 else
                   let size_price = max \<bar>close r\<bar> 0.000001;
                       q = (if entry_qty_sign sg = 0 then 0
                            else allocation / size_price * entry_qty_sign sg);
                       fee = allocation * fee_rate p
                   in if q \<noteq> 0
                      then Inr (open_trade (timestamp r) (close r) q \<bar>fee\<bar> ''entry_signal_statarb'' s)
                      else Inr s)
              else
                (if close r = 0 then Inl ZeroDivisionError
                 else
                   let q = allocation / close r;
                       fee = allocation * fee_rate p
                   in if q \<noteq> 0
                      then Inr (open_trade (timestamp r) (close r) q \<bar>fee\<bar> ''entry_signal'' s)
                      else Inr s))
           else Inr s)
      else Inr s)"

text \<open>The body of the \<^verbatim>\<open>for\<close> loop (lines 1899-2097).\<close>

definition step :: "params \<Rightarrow> real \<Rightarrow> real \<Rightarrow> row \<Rightarrow> sim_state \<Rightarrow> py_error + sim_state" where
  "step p ml_prob sentiment_score r s =
     (let s1 = mark_equity p r s in
      if halted s1 then Inr s1
      else
        let s2 = fst (correlation_guard p r s1);
            correlation_blocked = snd (correlation_guard p r s1);
            sg = bar_signals p correlation_blocked ml_prob sentiment_score r s2
        in case manage_position p sg r s2 of
             Some s3 \<Rightarrow> Inr s3
           | None \<Rightarrow> try_entry p (resolve_mode p r) sg correlation_blocked r s2)"

text \<open>
  The loop with its index: \<^verbatim>\<open>ml_probs.iloc[idx]\<close> is read only when the overlay is
  enabled and raises out of range; the sentiment defaults to zero out of range.
\<close>

fun bar_loop ::
    "params \<Rightarrow> real list \<Rightarrow> real list \<Rightarrow> nat \<Rightarrow> row list \<Rightarrow> sim_state \<Rightarrow> py_error + sim_state" where
  "bar_loop p ml_probs sentiment idx [] s = Inr s"
| "bar_loop p ml_probs sentiment idx (r # rs) s =
     (if ml_enabled p \<and> idx \<ge> length ml_probs then Inl IndexError
      else
        case step p (if ml_enabled p then ml_probs ! idx else 0.5)
               (if length sentiment > idx then sentiment ! idx else 0) r s of
          Inl e \<Rightarrow> Inl e
        | Inr s' \<Rightarrow> bar_loop p ml_probs sentiment (Suc idx) rs s')"

text \<open>Lines 2099-2100: the close at the end of the data.\<close>

definition eod_close :: "params \<Rightarrow> row list \<Rightarrow> sim_state \<Rightarrow> py_error + sim_state" where
  "eod_close p rows s =
     (if position_qty s \<noteq> 0 then
        (if rows = [] then Inl IndexError
         else Inr (close_trade p (timestamp (last rows)) (close (last rows)) ''eod_close'' s))
      else Inr s)"

text \<open>Lines 1820-2100: the simulation from the initial state to the end-of-data close.\<close>

definition simulate ::
    "params \<Rightarrow> real \<Rightarrow> real list \<Rightarrow> real list \<Rightarrow> row list \<Rightarrow> py_error + sim_state" where
  "simulate p arg_cash ml_probs sentiment rows =
     (case bar_loop p ml_probs sentiment 0 rows (initial_state p (max 0.000000001 arg_cash)) of
        Inl e \<Rightarrow> Inl e
      | Inr s \<Rightarrow> eod_close p rows s)"

subsection \<open>The Sharpe-like ratio of the metrics\<close>






text \<open>
  The sample standard deviation (\<^verbatim>\<open>ddof=1\<close>) over the reals, the value
  \<^verbatim>\<open>Series.std()\<close> approximates.
\<close>

definition sample_std :: "real list \<Rightarrow> real" where
  "sample_std xs = sqrt (sum_list (map (\<lambda>x. (x - mean xs)\<^sup>2) xs) / (real (length xs) - 1))"



subsection \<open>The indicator engine: \<^verbatim>\<open>_rsi\<close> and \<^verbatim>\<open>_add_indicators\<close>\<close>

text \<open>
  A bar as \<^verbatim>\<open>_load_ohlcv_csv\<close> yields it. A column of the data frame is a list of
  \<^typ>\<open>real option\<close>, \<^term>\<open>None\<close> standing for NaN.
\<close>

record bar =
  bar_timestamp :: int
  bar_open :: real
  bar_high :: real
  bar_low :: real
  bar_close :: real
  bar_volume :: real

type_synonym column = "real option list"

definition opt2 :: "(real \<Rightarrow> real \<Rightarrow> real) \<Rightarrow> real option \<Rightarrow> real option \<Rightarrow> real option" where
  "opt2 f a b = (case a of None \<Rightarrow> None | Some x \<Rightarrow> (case b of None \<Rightarrow> None | Some y \<Rightarrow> Some (f x y)))"

text \<open>
  \<^verbatim>\<open>Series.rolling(w).agg()\<close> with the default \<^verbatim>\<open>min_periods = w\<close>: undefined until \<open>w\<close>
  values are seen and whenever the window holds an undefined value.
\<close>

definition rolling_at :: "nat \<Rightarrow> (real list \<Rightarrow> real) \<Rightarrow> column \<Rightarrow> nat \<Rightarrow> real option" where
  "rolling_at w f xs i =
     (if w = 0 \<or> i + 1 < w then None
      else let win = take w (drop (i + 1 - w) xs)
           in if None \<in> set win then None else Some (f (map the win)))"

definition rolling :: "nat \<Rightarrow> (real list \<Rightarrow> real) \<Rightarrow> column \<Rightarrow> column" where
  "rolling w f xs = map (rolling_at w f xs) [0..<length xs]"

text \<open>\<^verbatim>\<open>std(ddof=0)\<close>, the population standard deviation.\<close>

definition pop_std :: "real list \<Rightarrow> real" where
  "pop_std xs = sqrt (sum_list (map (\<lambda>x. (x - mean xs)\<^sup>2) xs) / real (length xs))"

text \<open>\<^verbatim>\<open>Series.diff()\<close>: the first value has no predecessor.\<close>

definition series_diff :: "column \<Rightarrow> column" where
  "series_diff xs = map (\<lambda>i. if i = 0 then None else opt2 (-) (xs ! i) (xs ! (i - 1))) [0..<length xs]"

text \<open>\<^verbatim>\<open>Series.replace(0, nan)\<close>.\<close>

definition zero_to_nan :: "real option \<Rightarrow> real option" where
  "zero_to_nan v = (if v = Some 0 then None else v)"

text \<open>The average loss of \<^verbatim>\<open>_rsi\<close> (lines 1641-1645), the denominator of the ratio.\<close>

definition avg_loss :: "nat \<Rightarrow> column \<Rightarrow> column" where
  "avg_loss period series =
     rolling period mean (map (map_option (\<lambda>d. - min d 0)) (series_diff series))"

definition avg_gain :: "nat \<Rightarrow> column \<Rightarrow> column" where
  "avg_gain period series =
     rolling period mean (map (map_option (\<lambda>d. max d 0)) (series_diff series))"

text \<open>\<^verbatim>\<open>_rsi\<close> (lines 1640-1647).\<close>

definition rsi_series :: "nat \<Rightarrow> column \<Rightarrow> column" where
  "rsi_series period series =
     map (\<lambda>i. map_option (\<lambda>rs. 100 - 100 / (1 + rs))
                (opt2 (/) (avg_gain period series ! i)
                   (zero_to_nan (avg_loss period series ! i))))
       [0..<length series]"

text \<open>
  The true range (lines 1671-1679): \<^verbatim>\<open>max(axis=1)\<close> skips the undefined previous close
  of the first bar.
\<close>

definition true_range :: "bar list \<Rightarrow> column" where
  "true_range bars =
     map (\<lambda>i. let b = bars ! i in
            if i = 0 then Some (bar_high b - bar_low b)
            else let pc = bar_close (bars ! (i - 1)) in
              Some (max (bar_high b - bar_low b)
                      (max \<bar>bar_high b - pc\<bar> \<bar>bar_low b - pc\<bar>)))
       [0..<length bars]"

text \<open>A row of the frame \<^verbatim>\<open>_add_indicators\<close> returns: the bar and its nine indicators.\<close>

record frame_row =
  fr_bar :: bar
  fr_sma :: "real option"
  fr_std :: "real option"
  fr_bb_upper :: "real option"
  fr_bb_lower :: "real option"
  fr_rsi :: "real option"
  fr_ma_fast :: "real option"
  fr_ma_slow :: "real option"
  fr_trend_strength :: "real option"
  fr_atr :: "real option"

definition closes :: "bar list \<Rightarrow> column" where
  "closes bars = map (\<lambda>b. Some (bar_close b)) bars"

text \<open>\<^verbatim>\<open>_add_indicators\<close> (lines 1650-1681), row by row.\<close>

definition add_indicators :: "params \<Rightarrow> bar list \<Rightarrow> frame_row list" where
  "add_indicators p bars =
     map (\<lambda>i.
       let sma_i = rolling_at (nat (bb_window p)) mean (closes bars) i;
           std_i = rolling_at (nat (bb_window p)) pop_std (closes bars) i;
           fast_i = rolling_at (nat (momentum_fast p)) mean (closes bars) i;
           slow_i = rolling_at (nat (momentum_slow p)) mean (closes bars) i
       in \<lparr>fr_bar = bars ! i,
           fr_sma = sma_i,
           fr_std = std_i,
           fr_bb_upper = opt2 (\<lambda>m sd. m + bb_std p * sd) sma_i std_i,
           fr_bb_lower = opt2 (\<lambda>m sd. m - bb_std p * sd) sma_i std_i,
           fr_rsi = rsi_series (nat (rsi_period p)) (closes bars) ! i,
           fr_ma_fast = fast_i,
           fr_ma_slow = slow_i,
           fr_trend_strength = opt2 (\<lambda>f sl. \<bar>f - sl\<bar> / sl) fast_i (zero_to_nan slow_i),
           fr_atr = rolling_at (nat (atr_window p)) mean (true_range bars) i\<rparr>)
       [0..<length bars]"

text \<open>
  The \<^verbatim>\<open>dropna\<close> of lines 1790-1792 keeps the rows whose nine indicators are all
  defined; they are the rows the bar loop iterates.
\<close>

definition row_defined :: "frame_row \<Rightarrow> bool" where
  "row_defined fr =
     (fr_sma fr \<noteq> None \<and> fr_std fr \<noteq> None \<and> fr_bb_upper fr \<noteq> None \<and> fr_bb_lower fr \<noteq> None \<and>
      fr_rsi fr \<noteq> None \<and> fr_atr fr \<noteq> None \<and> fr_ma_fast fr \<noteq> None \<and> fr_ma_slow fr \<noteq> None \<and>
      fr_trend_strength fr \<noteq> None)"

definition dropna_indicators :: "frame_row list \<Rightarrow> frame_row list" where
  "dropna_indicators frame = filter row_defined frame"

definition to_row :: "frame_row \<Rightarrow> row" where
  "to_row fr =
     \<lparr>timestamp = bar_timestamp (fr_bar fr), high = bar_high (fr_bar fr), low = bar_low (fr_bar fr),
      close = bar_close (fr_bar fr), volume = bar_volume (fr_bar fr),
      sma = the (fr_sma fr), std = the (fr_std fr), bb_upper = the (fr_bb_upper fr),
      bb_lower = the (fr_bb_lower fr), rsi = the (fr_rsi fr), atr = the (fr_atr fr),
      ma_fast = the (fr_ma_fast fr), ma_slow = the (fr_ma_slow fr),
      trend_strength = the (fr_trend_strength fr)\<rparr>"

definition indicator_rows :: "params \<Rightarrow> bar list \<Rightarrow> row list" where
  "indicator_rows p bars = map to_row (dropna_indicators (add_indicators p bars))"

text \<open>
  The longest window as the specification counts it, and the number of bars after which
  every rolling value exists: the oscillator works on differences, so it needs one bar
  more than its period.
\<close>

definition max_window :: "params \<Rightarrow> nat" where
  "max_window p =
     nat (max (bb_window p) (max (rsi_period p)
            (max (momentum_fast p) (max (momentum_slow p) (atr_window p)))))"

definition warmup :: "params \<Rightarrow> nat" where
  "warmup p =
     nat (max (bb_window p) (max (rsi_period p + 1)
            (max (momentum_fast p) (max (momentum_slow p) (atr_window p)))))"

subsection \<open>The probability overlay: \<^verbatim>\<open>_build_ml_probabilities\<close>\<close>












text \<open>Line 1625: \<^verbatim>\<open>probability.loc[x_test.index] = proba\<close>.\<close>

fun write_back :: "real list \<Rightarrow> (nat \<times> real) list \<Rightarrow> real list" where
  "write_back probs [] = probs"
| "write_back probs ((i, v) # rest) = write_back (probs[i := v]) rest"



subsection \<open>The pair spread: the shift of \<^verbatim>\<open>_build_stat_arb_df\<close>\<close>

text \<open>
  A row of \<^verbatim>\<open>merged\<close> once the hedge ratio is filled (lines 671-673): the two closes
  and the hedge ratio, all defined. The join and the rolling mean that produce these
  rows are not represented; the rows are the input of lines 674-677.
\<close>

record merged_row =
  close_base :: real
  close_pair :: real
  hedge_ratio :: real

text \<open>The float64 the literal \<^verbatim>\<open>1e-8\<close> denotes.\<close>

definition eps_1e_8 :: real where
  "eps_1e_8 = 3022314549036573 / 302231454903657293676544"

text \<open>Line 674: \<^verbatim>\<open>close_base - (hedge_ratio * close_pair)\<close>.\<close>

definition pair_spread :: "merged_row \<Rightarrow> real" where
  "pair_spread m = fl_sub (close_base m) (fl_mul (hedge_ratio m) (close_pair m))"

text \<open>\<^verbatim>\<open>Series.min()\<close>: NaN on an empty series.\<close>

definition series_min :: "real list \<Rightarrow> real option" where
  "series_min xs = (case xs of [] \<Rightarrow> None | x # rest \<Rightarrow> Some (fold min rest x))"

text \<open>
  Line 676:
  \<^verbatim>\<open>abs(spread_min) + 1e-8 if pd.notna(spread_min) and spread_min <= 0 else 0.0\<close>.
\<close>

definition spread_shift :: "real list \<Rightarrow> real" where
  "spread_shift spreads =
     (case series_min spreads of
        None \<Rightarrow> 0
      | Some spread_min \<Rightarrow> if spread_min \<le> 0 then fl_add \<bar>spread_min\<bar> eps_1e_8 else 0)"

text \<open>Lines 674-677: the close series of the frame the builder returns.\<close>

definition spread_close :: "merged_row list \<Rightarrow> real list" where
  "spread_close merged =
     (let spreads = map pair_spread merged
      in map (\<lambda>x. fl_add x (spread_shift spreads)) spreads)"

subsection \<open>Order validation: \<^verbatim>\<open>run_execute\<close>\<close>

text \<open>
  A risk block keeps its name and status; the message and details texts of the source
  are not represented. \<^verbatim>\<open>risk_summary\<close> is the dictionary with the four keys, in their
  order.
\<close>

record risk_block =
  block_name :: string
  block_status :: string

record exec_state =
  risk_blocks :: "risk_block list"
  risk_summary :: "(string \<times> nat) list"

definition initial_exec_state :: exec_state where
  "initial_exec_state =
     \<lparr>risk_blocks = [], risk_summary = [(''pass'', 0), (''skip'', 0), (''blocked'', 0), (''fail'', 0)]\<rparr>"

text \<open>
  The closure \<^verbatim>\<open>_add_risk_block\<close> (lines 1026-1034): the block is appended, and the
  counter of its status is incremented when the status is a key of the summary.
\<close>

definition add_risk_block :: "string \<Rightarrow> string \<Rightarrow> exec_state \<Rightarrow> exec_state" where
  "add_risk_block nm st x =
     x\<lparr>risk_blocks := risk_blocks x @ [\<lparr>block_name = nm, block_status = st\<rparr>],
       risk_summary :=
         (if st \<in> fst ` set (risk_summary x)
          then map (\<lambda>(k, v). if k = st then (k, v + 1) else (k, v)) (risk_summary x)
          else risk_summary x)\<rparr>"

record execute_args =
  symbol :: string
  order_type :: string
  order_side :: string
  order_amount :: "real option"
  order_price :: "real option"
  confirm :: bool
  api_key :: "string option"
  api_secret :: "string option"
  max_order_notional :: real
  max_account_fraction :: real
  skip_balance_check :: bool

text \<open>
  What the exchange does when called: each call raises or returns. The ticker is read at
  most twice (for the notional cap, then inside the balance check).
\<close>

datatype 'a call = Raises | Returns 'a

text \<open>
  A value of the \<^verbatim>\<open>free\<close> dictionary of the balance: a number, or something
  \<^verbatim>\<open>float()\<close> rejects. \<^verbatim>\<open>_to_float(v, 0.0)\<close> turns the latter into 0.
\<close>

datatype balance_value = Numeric real | Not_numeric

definition balance_to_float :: "balance_value \<Rightarrow> real" where
  "balance_to_float v = (case v of Numeric x \<Rightarrow> x | Not_numeric \<Rightarrow> 0)"

record exchange_env =
  create_exchange :: "unit call"
  market_price_first :: "real option call"
  fetch_balance_free :: "(string \<Rightarrow> balance_value option) call"
  market_price_second :: "real option call"
  create_order :: "unit call"

text \<open>How a stage ends: with a response (success flag and status), with an exception
  that \<^verbatim>\<open>run_execute\<close> does not catch, or by going on to the next statement.\<close>

datatype outcome = Finished bool string | Uncaught | Proceed

definition then_stage ::
    "outcome \<times> exec_state \<Rightarrow> (exec_state \<Rightarrow> outcome \<times> exec_state) \<Rightarrow> outcome \<times> exec_state" where
  "then_stage res f = (case fst res of Proceed \<Rightarrow> f (snd res) | _ \<Rightarrow> res)"

fun split_on :: "char \<Rightarrow> string \<Rightarrow> string list" where
  "split_on c [] = [[]]"
| "split_on c (x # xs) =
     (if x = c then [] # split_on c xs
      else (case split_on c xs of h # t \<Rightarrow> (x # h) # t | [] \<Rightarrow> [[x]]))"

text \<open>\<^verbatim>\<open>str.upper\<close> on the ASCII letters.\<close>

definition upper :: "string \<Rightarrow> string" where
  "upper = map (\<lambda>c. case map_of (zip ''abcdefghijklmnopqrstuvwxyz''
                                       ''ABCDEFGHIJKLMNOPQRSTUVWXYZ'') c of
                        Some u \<Rightarrow> u | None \<Rightarrow> c)"

definition falsy :: "string option \<Rightarrow> bool" where
  "falsy k = (case k of None \<Rightarrow> True | Some v \<Rightarrow> v = [])"

text \<open>Lines 1135-1172: amount, price and symbol format.\<close>

definition validate_order :: "execute_args \<Rightarrow> exec_state \<Rightarrow> outcome \<times> exec_state" where
  "validate_order a x =
     (if (case order_amount a of None \<Rightarrow> True | Some amt \<Rightarrow> amt \<le> 0)
      then (Finished False ''invalid_input'', add_risk_block ''order_amount'' ''blocked'' x)
      else
        let x1 = add_risk_block ''order_amount'' ''pass'' x in
        if order_type a = ''limit''
           \<and> (case order_price a of None \<Rightarrow> True | Some px \<Rightarrow> px \<le> 0)
        then (Finished False ''invalid_input'', add_risk_block ''order_price'' ''blocked'' x1)
        else
          let x2 = (if order_type a = ''limit''
                    then add_risk_block ''order_price'' ''pass'' x1
                    else add_risk_block ''order_price'' ''skip'' x1)
          in if length (split_on (CHR ''/'') (upper (symbol a))) \<noteq> 2
             then (Finished False ''symbol_blocked'', add_risk_block ''symbol_format'' ''blocked'' x2)
             else (Proceed, add_risk_block ''symbol_format'' ''pass'' x2))"

text \<open>Lines 1176-1261: the dry run, taken without \<^verbatim>\<open>--confirm\<close>.\<close>

definition dry_run :: "execute_args \<Rightarrow> exec_state \<Rightarrow> outcome \<times> exec_state" where
  "dry_run a x =
     (let x1 = add_risk_block ''execution_confirmation'' ''skip'' x;
          amt = the (order_amount a);
          cap = max_order_notional a;
          blocked = (Finished False ''risk_limit_blocked'',
                     add_risk_block ''notional_cap'' ''blocked'' x1);
          finish = (\<lambda>y. (Finished True ''dry_run'', add_risk_block ''balance_cap'' ''skip'' y))
      in if cap > 0 then
           (if order_type a = ''limit'' then
              (if amt * (case order_price a of None \<Rightarrow> 0 | Some px \<Rightarrow> px) > cap then blocked
               else finish (add_risk_block ''notional_cap'' ''pass'' x1))
            else
              (case order_price a of
                 Some px \<Rightarrow>
                   (if px > 0 then
                      (if amt * px > cap then blocked
                       else finish (add_risk_block ''notional_cap'' ''pass'' x1))
                    else finish (add_risk_block ''notional_cap'' ''skip'' x1))
               | None \<Rightarrow> finish (add_risk_block ''notional_cap'' ''skip'' x1)))
         else finish (add_risk_block ''notional_cap'' ''skip'' x1))"

text \<open>Lines 1263-1292: confirmation, credentials and the connection to the exchange.\<close>

definition live_preflight ::
    "execute_args \<Rightarrow> exchange_env \<Rightarrow> exec_state \<Rightarrow> outcome \<times> exec_state" where
  "live_preflight a env x =
     (let x1 = add_risk_block ''execution_confirmation'' ''pass'' x in
      if falsy (api_key a) \<or> falsy (api_secret a)
      then (Finished False ''live_blocked'', add_risk_block ''exchange_credentials'' ''blocked'' x1)
      else
        let x2 = add_risk_block ''exchange_credentials'' ''pass'' x1 in
        case create_exchange env of
          Returns u \<Rightarrow> (Proceed, add_risk_block ''exchange_connection'' ''pass'' x2)
        | Raises \<Rightarrow>
            (Finished False ''live_blocked'', add_risk_block ''exchange_connection'' ''fail'' x2))"

text \<open>
  Lines 1296-1345: the notional cap of a live order. The ticker is read outside any
  \<^verbatim>\<open>try\<close>, so an exception of the exchange leaves \<^verbatim>\<open>run_execute\<close>.
\<close>

definition check_notional :: "real \<Rightarrow> real \<Rightarrow> exec_state \<Rightarrow> outcome \<times> exec_state" where
  "check_notional notional_estimate cap x =
     (if notional_estimate \<le> 0
      then (Finished False ''live_blocked'', add_risk_block ''notional_cap'' ''fail'' x)
      else if notional_estimate > cap
      then (Finished False ''risk_limit_blocked'', add_risk_block ''notional_cap'' ''blocked'' x)
      else (Proceed, add_risk_block ''notional_cap'' ''pass'' x))"

definition live_notional ::
    "execute_args \<Rightarrow> exchange_env \<Rightarrow> exec_state \<Rightarrow> outcome \<times> exec_state" where
  "live_notional a env x =
     (let amt = the (order_amount a); cap = max_order_notional a in
      if cap > 0 then
        (if order_type a = ''market'' then
           (case market_price_first env of
              Raises \<Rightarrow> (Uncaught, x)
            | Returns None \<Rightarrow>
                (Finished False ''live_blocked'', add_risk_block ''notional_cap'' ''fail'' x)
            | Returns (Some mp) \<Rightarrow>
                (if mp \<le> 0
                 then (Finished False ''live_blocked'', add_risk_block ''notional_cap'' ''fail'' x)
                 else check_notional (amt * mp) cap x))
         else check_notional (amt * (case order_price a of None \<Rightarrow> 0 | Some px \<Rightarrow> px)) cap x)
      else (Proceed, add_risk_block ''notional_cap'' ''skip'' x))"

text \<open>
  \<^verbatim>\<open>str.strip()\<close>: the characters up to code 255 that Python counts as whitespace.
\<close>

definition py_strip :: "string \<Rightarrow> string" where
  "py_strip t =
     (let ws = (\<lambda>c. c \<in> set [CHR '' '', CHR 0x09, CHR 0x0A, CHR 0x0B, CHR 0x0C, CHR 0x0D,
                                 CHR 0x1C, CHR 0x1D, CHR 0x1E, CHR 0x1F, CHR 0x85, CHR 0xA0])
      in rev (dropWhile ws (rev (dropWhile ws t))))"

text \<open>
  Lines 1347-1447: the balance guard. Everything inside the \<^verbatim>\<open>try\<close> that raises ends
  in the \<^verbatim>\<open>fail\<close> block of the handler. On the sell side the available balance is
  compared through \<^verbatim>\<open>_to_float\<close> and then converted with \<^verbatim>\<open>float()\<close>, which raises on
  a value that is not a number: after the \<^verbatim>\<open>blocked\<close> block when the amount exceeds it,
  before the \<^verbatim>\<open>pass\<close> block otherwise.
\<close>

definition balance_failed :: "exec_state \<Rightarrow> outcome \<times> exec_state" where
  "balance_failed x = (Finished False ''risk_check_failed'', add_risk_block ''balance_cap'' ''fail'' x)"

definition balance_blocked :: "exec_state \<Rightarrow> outcome \<times> exec_state" where
  "balance_blocked x = (Finished False ''risk_limit_blocked'', add_risk_block ''balance_cap'' ''blocked'' x)"

definition buy_balance ::
    "execute_args \<Rightarrow> exchange_env \<Rightarrow> real \<Rightarrow> exec_state \<Rightarrow> outcome \<times> exec_state" where
  "buy_balance a env available_quote x =
     (let amt = the (order_amount a);
          cap_quote = available_quote * max_account_fraction a;
          decide = (\<lambda>notional_estimate.
            case notional_estimate of
              Some ne \<Rightarrow> (if ne > cap_quote then balance_blocked x
                           else (Proceed, add_risk_block ''balance_cap'' ''pass'' x))
            | None \<Rightarrow> (Proceed, add_risk_block ''balance_cap'' ''skip'' x))
      in if order_type a = ''market'' then
           (case market_price_second env of
              Raises \<Rightarrow> balance_failed x
            | Returns None \<Rightarrow> decide None
            | Returns (Some mp) \<Rightarrow> (if mp > 0 then decide (Some (amt * mp)) else decide None))
         else decide (Some (amt * (case order_price a of None \<Rightarrow> 0 | Some px \<Rightarrow> px))))"

definition live_balance ::
    "execute_args \<Rightarrow> exchange_env \<Rightarrow> exec_state \<Rightarrow> outcome \<times> exec_state" where
  "live_balance a env x =
     (let parts = split_on (CHR ''/'') (upper (symbol a));
          base_currency = py_strip (parts ! 0);
          quote_currency = py_strip (parts ! 1);
          amt = the (order_amount a)
      in if \<not> skip_balance_check a \<and> max_account_fraction a \<noteq> 0
            \<and> 0 < max_account_fraction a \<and> max_account_fraction a \<le> 1
         then
           (case fetch_balance_free env of
              Raises \<Rightarrow> balance_failed x
            | Returns free_funds \<Rightarrow>
                (if order_side a = ''buy'' then
                   (case free_funds quote_currency of
                      Some available_quote \<Rightarrow>
                        buy_balance a env (balance_to_float available_quote) x
                    | None \<Rightarrow> (Proceed, add_risk_block ''balance_cap'' ''skip'' x))
                 else
                   (case free_funds base_currency of
                      Some available_base \<Rightarrow>
                        (if amt > balance_to_float available_base then
                           (case available_base of
                              Numeric v \<Rightarrow> balance_blocked x
                            | Not_numeric \<Rightarrow>
                                balance_failed (add_risk_block ''balance_cap'' ''blocked'' x))
                         else
                           (case available_base of
                              Numeric v \<Rightarrow> (Proceed, add_risk_block ''balance_cap'' ''pass'' x)
                            | Not_numeric \<Rightarrow> balance_failed x))
                    | None \<Rightarrow> (Proceed, add_risk_block ''balance_cap'' ''pass'' x))))
         else (Proceed, add_risk_block ''balance_cap'' ''skip'' x))"

text \<open>Lines 1449-1479: the submission.\<close>

definition submit_order :: "exchange_env \<Rightarrow> exec_state \<Rightarrow> outcome \<times> exec_state" where
  "submit_order env x =
     (case create_order env of
        Raises \<Rightarrow> (Finished False ''execution_failed'', add_risk_block ''order_submission'' ''fail'' x)
      | Returns u \<Rightarrow> (Finished True ''submitted'', add_risk_block ''order_submission'' ''pass'' x))"

text \<open>
  The response of \<^verbatim>\<open>run_execute\<close>. Its \<^verbatim>\<open>risk_blocks\<close> and \<^verbatim>\<open>risk_summary\<close> and those
  of its \<^verbatim>\<open>execution_report\<close> are the same two objects, read when the response is
  returned.
\<close>

record execution_report =
  report_risk_blocks :: "risk_block list"
  report_risk_summary :: "(string \<times> nat) list"

record response =
  success :: bool
  status :: string
  response_risk_blocks :: "risk_block list"
  response_risk_summary :: "(string \<times> nat) list"
  report :: execution_report

definition run_stages :: "execute_args \<Rightarrow> exchange_env \<Rightarrow> outcome \<times> exec_state" where
  "run_stages a env =
     then_stage (validate_order a initial_exec_state)
       (\<lambda>x. if \<not> confirm a then dry_run a x
            else then_stage (live_preflight a env x)
              (\<lambda>x. then_stage (live_notional a env x)
                (\<lambda>x. then_stage (live_balance a env x) (submit_order env))))"

definition run_execute :: "execute_args \<Rightarrow> exchange_env \<Rightarrow> py_error + response" where
  "run_execute a env =
     (case run_stages a env of
        (Finished ok st, x) \<Rightarrow>
          Inr \<lparr>success = ok, status = st,
               response_risk_blocks = risk_blocks x,
               response_risk_summary = risk_summary x,
               report = \<lparr>report_risk_blocks = risk_blocks x,
                         report_risk_summary = risk_summary x\<rparr>\<rparr>
      | (other, x) \<Rightarrow> Inl ExchangeError)"

text \<open>The property of C9 as a predicate of the state of the checks.\<close>

definition counts_agree :: "exec_state \<Rightarrow> bool" where
  "counts_agree x =
     (map fst (risk_summary x) = [''pass'', ''skip'', ''blocked'', ''fail''] \<and>
      sum_list (map snd (risk_summary x)) = length (risk_blocks x))"

text \<open>
  The invariant behind the halted state: the circuit breaker closes the position before it
  sets the flag, and nothing opens one afterwards.
\<close>

definition flat_when_halted :: "sim_state \<Rightarrow> bool" where
  "flat_when_halted s = (if halted s then position_qty s = 0 else True)"

subsection \<open>Concrete inputs used by the witnesses\<close>

definition example_row :: "int \<Rightarrow> real \<Rightarrow> row" where
  "example_row ts c = \<lparr>timestamp = ts, high = c + 1, low = c - 1, close = c, volume = 1000,
     sma = 100, std = 2, bb_upper = 104, bb_lower = 96, rsi = 25, atr = 2,
     ma_fast = 100, ma_slow = 101, trend_strength = 0.0099\<rparr>"

definition mean_reversion_params :: params where
  "mean_reversion_params = build_params (example_args\<lparr>arg_strategy_mode := ''mean-reversion''\<rparr>)"

definition full_size_params :: params where
  "full_size_params = build_params (example_args\<lparr>arg_strategy_mode := ''mean-reversion'',
     arg_position_size := 1, arg_max_portfolio_risk := 1\<rparr>)"

definition zero_limit_params :: params where
  "zero_limit_params = build_params (example_args\<lparr>arg_max_drawdown := 0\<rparr>)"

definition statarb_params :: params where
  "statarb_params = build_params (example_args\<lparr>arg_strategy_mode := ''stat-arb''\<rparr>)"

text \<open>The reason codes of the trade ledger a run returns, in order.\<close>

definition run_reasons :: "py_error + sim_state \<Rightarrow> string list" where
  "run_reasons res = (case res of Inl e \<Rightarrow> [] | Inr s \<Rightarrow> map reason (trades s))"

text \<open>
  A bar that does not move (high = low = close) at the end of a flat stretch, where the
  ATR is zero; its oscillator is above the sell threshold.
\<close>

definition flat_row :: "int \<Rightarrow> real \<Rightarrow> row" where
  "flat_row ts c = (example_row ts c)\<lparr>high := c, low := c, rsi := 80, atr := 0\<rparr>"

text \<open>The trade ledger a run returns: timestamp, recorded price and reason of each trade.\<close>

definition run_ledger :: "py_error + sim_state \<Rightarrow> (int \<times> real \<times> string) list" where
  "run_ledger res =
     (case res of Inl e \<Rightarrow> [] | Inr s \<Rightarrow> map (\<lambda>t. (trade_ts t, price t, reason t)) (trades s))"

definition test_order :: execute_args where
  "test_order = \<lparr>symbol = ''btc/usdt'', order_type = ''limit'', order_side = ''buy'',
     order_amount = Some 0.01, order_price = Some 100, confirm = False,
     api_key = None, api_secret = None, max_order_notional = 2,
     max_account_fraction = 0.2, skip_balance_check = False\<rparr>"

definition offline_env :: exchange_env where
  "offline_env = \<lparr>create_exchange = Raises, market_price_first = Raises,
     fetch_balance_free = Raises, market_price_second = Raises, create_order = Raises\<rparr>"

definition short_window_params :: params where
  "short_window_params = build_params (example_args\<lparr>arg_bb_window := 2, arg_rsi_period := 2,
     arg_momentum_fast := 2, arg_momentum_slow := 2, arg_atr_window := 2\<rparr>)"

definition mk_bar :: "int \<Rightarrow> real \<Rightarrow> bar" where
  "mk_bar ts c = \<lparr>bar_timestamp = ts, bar_open = c, bar_high = c + 1, bar_low = c - 1,
     bar_close = c, bar_volume = 1000\<rparr>"

definition zigzag_bars :: "bar list" where
  "zigzag_bars = [mk_bar 0 2, mk_bar 1 1, mk_bar 2 2, mk_bar 3 1]"




text \<open>
  The merged rows of a primary series with the closes \<open>2\<^sup>2\<^sup>9\<close> and \<open>2\<^sup>2\<^sup>8\<close>, a
  secondary series constant at 1 and a hedge window of 2: the rolling mean of the ratio
  is \<open>3 \<times> 2\<^sup>2\<^sup>7\<close> on the second row and is filled backwards into the first.
\<close>

definition absorbed_rows :: "merged_row list" where
  "absorbed_rows =
     [\<lparr>close_base = 536870912, close_pair = 1, hedge_ratio = 402653184\<rparr>,
      \<lparr>close_base = 268435456, close_pair = 1, hedge_ratio = 402653184\<rparr>]"

text \<open>
  A frame of 130 rows whose close alternates between 100 and 101, and two environments:
  one where only scikit-learn can be imported and every fitted model predicts 0.9, one
  where nothing can be imported. The overlay is enabled with \<^verbatim>\<open>--model-type xgboost\<close>,
  horizon 1 and train ratio 0.75.
\<close>

definition alt_rows :: "row list" where
  "alt_rows = map (\<lambda>k. example_row (int k) (if even k then 100 else 101)) [0..<130]"






section \<open>Theorems\<close>

subsection \<open>Facts about the rounding and the conversions\<close>

lemma round_half_even_int [simp]: "round_half_even (of_int k) = k"
  by (simp add: round_half_even_def)

lemma float_exponent_eq:
  assumes "2 ^ n \<le> \<bar>x\<bar>" "\<bar>x\<bar> < 2 ^ Suc n"
  shows "float_exponent x = int n"
proof -
  have "(0::real) < 2 ^ n" by simp
  with assms(1) have pos: "0 < \<bar>x\<bar>" by linarith
  have "\<lfloor>log 2 \<bar>x\<bar>\<rfloor> = int n"
  proof (subst floor_log_eq_powr_iff[OF pos])
    show "(1::real) < 2" by simp
    have a: "2 powr real_of_int (int n) = (2::real) ^ n" by (simp add: powr_realpow)
    have b: "2 powr real_of_int (int n + 1) = (2::real) ^ Suc n"
      using powr_realpow[of 2 "Suc n"] by (simp add: ac_simps)
    show "2 powr real_of_int (int n) \<le> \<bar>x\<bar> \<and> \<bar>x\<bar> < 2 powr real_of_int (int n + 1)"
      unfolding a b using assms by simp
  qed
  then show ?thesis by (simp add: float_exponent_def)
qed

lemma fl_round_eval:
  assumes "2 ^ n \<le> \<bar>x\<bar>" "\<bar>x\<bar> < 2 ^ Suc n" "n \<le> 52"
  shows "fl_round x = of_int (round_half_even (x * 2 ^ (52 - n))) / 2 ^ (52 - n)"
proof -
  have "(0::real) < 2 ^ n" by simp
  with assms(1) have "0 < \<bar>x\<bar>" by linarith
  then have ne: "x \<noteq> 0" by simp
  have e: "float_exponent x = int n" by (rule float_exponent_eq[OF assms(1,2)])
  have u: "float_ulp x = 1 / 2 ^ (52 - n)"
  proof (cases "n = 52")
    case True
    then show ?thesis by (simp add: float_ulp_def e)
  next
    case False
    then have "n < 52" using assms(3) by simp
    then have "nat (52 - int n) = 52 - n" by simp
    then show ?thesis using \<open>n < 52\<close> by (simp add: float_ulp_def e)
  qed
  show ?thesis using ne by (simp add: fl_round_def u)
qed

lemma py_int_of_int [simp]: "py_int (of_int k) = k"
  by (simp add: py_int_def)

lemma fl_round_of_int:
  assumes "\<bar>k\<bar> \<le> 2 ^ 53"
  shows "fl_round (of_int k) = of_int k"
proof (cases "k = 0")
  case True
  then show ?thesis by (simp add: fl_round_def)
next
  case False
  define x :: real where "x = of_int k"
  have "1 \<le> \<bar>k\<bar>" using False by linarith
  then have x1: "1 \<le> \<bar>x\<bar>" unfolding x_def by (metis of_int_1_le_iff of_int_abs)
  have x53: "\<bar>x\<bar> \<le> 2 ^ 53" using assms unfolding x_def
    by (metis of_int_abs of_int_le_numeral_power_cancel_iff)
  have l0: "0 \<le> log 2 \<bar>x\<bar>" using x1 by simp
  have p53: "(2::real) powr 53 = 2 ^ 53" by simp
  have xpos: "0 < \<bar>x\<bar>" using x1 by linarith
  have l53: "log 2 \<bar>x\<bar> \<le> 53"
    using x53 log_le_iff[of 2 "\<bar>x\<bar>" 53, OF _ xpos] unfolding p53 by simp
  have e: "float_exponent x = \<lfloor>log 2 \<bar>x\<bar>\<rfloor>"
  proof -
    have "0 \<le> \<lfloor>log 2 \<bar>x\<bar>\<rfloor>" using l0 by simp
    then show ?thesis by (simp add: float_exponent_def)
  qed
  have e0: "0 \<le> float_exponent x" using l0 unfolding e by simp
  have e53: "float_exponent x \<le> 53" using l53 unfolding e by linarith
  have ne: "x \<noteq> 0" using x1 by auto
  show ?thesis
  proof (cases "float_exponent x \<le> 52")
    case True
    define m where "m = nat (52 - float_exponent x)"
    have u: "float_ulp x = 1 / 2 ^ m"
    proof (cases "float_exponent x = 52")
      case True
      then show ?thesis by (simp add: float_ulp_def m_def)
    next
      case False
      then show ?thesis using True by (simp add: float_ulp_def m_def Let_def)
    qed
    have "x / float_ulp x = of_int (k * 2 ^ m)" unfolding u by (simp add: x_def)
    then have "round_half_even (x / float_ulp x) = k * 2 ^ m"
      by (simp only: round_half_even_int)
    then have r: "round_half_even (x / float_ulp x) = k * 2 ^ m" .
    have "fl_round x = of_int (round_half_even (x / float_ulp x)) * float_ulp x"
      using ne by (simp add: fl_round_def)
    also have "\<dots> = of_int (k * 2 ^ m) * (1 / 2 ^ m)" by (subst r) (simp only: u)
    also have "\<dots> = x" by (simp add: x_def)
    finally show ?thesis by (simp add: x_def)
  next
    case False
    then have e: "float_exponent x = 53" using e53 by simp
    then have "\<lfloor>log 2 \<bar>x\<bar>\<rfloor> = 53" by (simp add: float_exponent_def)
    then have "53 \<le> log 2 \<bar>x\<bar>" by linarith
    with l53 have eq53: "log 2 \<bar>x\<bar> = 53" by simp
    have a: "2 powr (log 2 \<bar>x\<bar>) = \<bar>x\<bar>" using xpos by simp
    have ax: "\<bar>x\<bar> = 2 ^ 53" using a unfolding eq53 p53 by simp
    have u: "float_ulp x = 2" by (simp add: float_ulp_def e)
    from ax have "x = 2 ^ 53 \<or> x = - (2 ^ 53)" by linarith
    then show ?thesis
    proof
      assume p: "x = 2 ^ 53"
      have "x / float_ulp x = of_int (2 ^ 52)" unfolding u by (simp add: p)
      then have r: "round_half_even (x / float_ulp x) = 2 ^ 52"
        by (simp only: round_half_even_int)
      have "fl_round x = of_int (round_half_even (x / float_ulp x)) * float_ulp x"
        using ne by (simp add: fl_round_def)
      also have "\<dots> = of_int (2 ^ 52) * 2" by (subst r) (simp only: u)
      also have "\<dots> = x" by (simp add: p)
      finally show ?thesis by (simp add: x_def)
    next
      assume p: "x = - (2 ^ 53)"
      have "x / float_ulp x = of_int (- (2 ^ 52))" unfolding u by (simp add: p)
      then have r: "round_half_even (x / float_ulp x) = - (2 ^ 52)"
        by (simp only: round_half_even_int)
      have "fl_round x = of_int (round_half_even (x / float_ulp x)) * float_ulp x"
        using ne by (simp add: fl_round_def)
      also have "\<dots> = of_int (- (2 ^ 52)) * 2" by (subst r) (simp only: u)
      also have "\<dots> = x" by (simp add: p)
      finally show ?thesis by (simp add: x_def)
    qed
  qed
qed

lemma int_via_float_small [simp]: "\<bar>x\<bar> \<le> 2 ^ 53 \<Longrightarrow> int_via_float d x = x"
proof -
  assume a: "\<bar>x\<bar> \<le> 2 ^ 53"
  have "(2::int) ^ 53 < 2 ^ 1024 - 2 ^ 970" by simp
  with a have "\<bar>x\<bar> < 2 ^ 1024 - 2 ^ 970" by linarith
  then show ?thesis using fl_round_of_int[OF a] by (simp add: int_via_float_def)
qed

lemma lower_known_modes [simp]:
  "lower ''adaptive'' = ''adaptive''"
  "lower ''mean-reversion'' = ''mean-reversion''"
  "lower ''momentum'' = ''momentum''"
  "lower ''momentum-only'' = ''momentum-only''"
  "lower ''stat-arb'' = ''stat-arb''"
  by (simp_all add: lower_def)

subsection \<open>The pair spread under the shift\<close>

lemma fl_402653184: "fl_round 402653184 = 402653184"
  using fl_round_of_int[of 402653184] by simp

lemma fl_134217728: "fl_round 134217728 = 134217728"
  using fl_round_of_int[of 134217728] by simp

lemma fl_m134217728: "fl_round (- 134217728) = - 134217728"
  using fl_round_of_int[of "- 134217728"] by simp

lemma fl_268435456: "fl_round 268435456 = 268435456"
  using fl_round_of_int[of 268435456] by simp

lemma shift_absorbed: "fl_round (134217728 + eps_1e_8) = 134217728"
  unfolding eps_1e_8_def
  by (subst fl_round_eval[where n = 27]) (simp_all add: round_half_even_def Let_def)

lemma fl_round_zero: "fl_round 0 = 0"
  by (simp add: fl_round_def)

lemma absorbed_spreads: "map pair_spread absorbed_rows = [134217728, - 134217728]"
  by (simp add: absorbed_rows_def pair_spread_def fl_mul_def fl_sub_def fl_402653184
      fl_134217728 fl_m134217728)

lemma absorbed_shift: "spread_shift [134217728, - 134217728] = 134217728"
  by (simp add: spread_shift_def series_min_def fl_add_def shift_absorbed)

text \<open>
  C1: the close series of the pair-spread builder is strictly positive. Over the reals
  the shift \<open>|min| + 10\<^sup>-\<^sup>8\<close> would make it so; in float64 the sum \<open>|min| + 10\<^sup>-\<^sup>8\<close> is
  \<open>|min|\<close> itself once \<open>|min|\<close> reaches \<open>2\<^sup>2\<^sup>7\<close>, and the row of the minimum ends at
  exactly 0. For the rows above the raw spreads are \<open>2\<^sup>2\<^sup>7\<close> and \<open>-2\<^sup>2\<^sup>7\<close>, the shift
  is \<open>2\<^sup>2\<^sup>7\<close>, and the close series is \<open>2\<^sup>2\<^sup>8\<close>, 0.
\<close>

theorem C1_spread_close_reaches_zero:
  "map pair_spread absorbed_rows = [134217728, - 134217728] \<and>
   spread_shift (map pair_spread absorbed_rows) = 134217728 \<and>
   spread_close absorbed_rows = [268435456, 0]"
  by (simp add: spread_close_def absorbed_spreads absorbed_shift fl_add_def fl_268435456
      fl_round_zero)



subsection \<open>Normalization of the trend windows\<close>

text \<open>
  C6 (as stated): after normalization the fast trend window is strictly below the slow
  one. It fails when the requested slow window is at most 2: both windows are then 2,
  because the floor of 2 is applied after the decrement.
\<close>

theorem C6_fast_not_below_slow_counterexample:
  "\<not> momentum_fast (build_params (example_args\<lparr>arg_momentum_fast := 5, arg_momentum_slow := 2\<rparr>))
      < momentum_slow (build_params (example_args\<lparr>arg_momentum_fast := 5, arg_momentum_slow := 2\<rparr>))"
  by (simp add: build_params_def initial_params_def example_args_def)

text \<open>
  C6 (amended): after normalization both windows are at least 2 and the fast window is at
  most the slow window; it is strictly below the slow window exactly when the requested
  slow window is at least 3. When the requested slow window is 2 or less, both windows
  end up equal to 2: the floor \<^verbatim>\<open>max(2, slow - 1)\<close> wins over the decrement.
\<close>

theorem C6_fast_below_slow_amended:
  "2 \<le> momentum_fast (build_params a) \<and>
   momentum_fast (build_params a) \<le> momentum_slow (build_params a) \<and>
   (momentum_fast (build_params a) < momentum_slow (build_params a))
     = (3 \<le> arg_momentum_slow a) \<and>
   (arg_momentum_slow a \<le> 2 \<longrightarrow>
      momentum_fast (build_params a) = 2 \<and> momentum_slow (build_params a) = 2)"
  by (auto simp add: build_params_def initial_params_def Let_def)

text \<open>A requested pair (5, 2) ends as (2, 2), and a requested pair (50, 200) is kept.\<close>

theorem C6_fast_below_slow_amended_witness:
  "momentum_fast (build_params (example_args\<lparr>arg_momentum_fast := 5, arg_momentum_slow := 2\<rparr>)) = 2 \<and>
   momentum_slow (build_params (example_args\<lparr>arg_momentum_fast := 5, arg_momentum_slow := 2\<rparr>)) = 2 \<and>
   momentum_fast (build_params example_args) < momentum_slow (build_params example_args)"
  using C6_fast_below_slow_amended[of "example_args\<lparr>arg_momentum_fast := 5, arg_momentum_slow := 2\<rparr>"]
    C6_fast_below_slow_amended[of example_args]
  by (simp add: example_args_def)


subsection \<open>Facts about the closures and the stages of a bar\<close>

lemmas sim_defs = simulate_def eod_close_def step_def mark_equity_def correlation_guard_def
  push_signals_def current_correlation_def apply_correlation_def bar_signals_def
  resolve_mode_def mode_signals_def gate_signals_def manage_position_def long_exit_def
  short_exit_def try_entry_def open_trade_def close_trade_def initial_state_def
  build_params_def initial_params_def example_args_def example_row_def
  mean_reversion_params_def safe_position_size_def known_modes_def Let_def

lemma close_trade_flat [simp]: "position_qty (close_trade p ts px rsn s) = 0"
  by (simp add: close_trade_def Let_def)

lemma close_trade_halted [simp]: "halted (close_trade p ts px rsn s) = halted s"
  by (simp add: close_trade_def Let_def)

lemma close_trade_open:
  assumes "position_qty s \<noteq> 0"
  shows "\<exists>t. trades (close_trade p ts px rsn s) = trades s @ [t] \<and> reason t = rsn \<and>
           price t = py_round 8 px \<and> trade_ts t = ts \<and> qty t = py_round 8 (position_qty s) \<and>
           side t = (if position_qty s > 0 then ''sell'' else ''buy'')"
    and "cash (close_trade p ts px rsn s) =
           cash s + (position_qty s * px - \<bar>position_qty s * px\<bar> * fee_rate p)"
  using assms by (simp_all add: close_trade_def Let_def)

lemma mark_equity_halted_keeps:
  assumes "halted s"
  shows "halted (mark_equity p r s)"
    and "trades (mark_equity p r s) = trades s"
    and "risk_events (mark_equity p r s) = risk_events s"
    and "controls (mark_equity p r s) = controls s"
    and "cash (mark_equity p r s) = cash s"
    and "position_qty (mark_equity p r s) = position_qty s"
    and "history_momentum (mark_equity p r s) = history_momentum s"
    and "history_mean_reversion (mark_equity p r s) = history_mean_reversion s"
    and "halt_reason (mark_equity p r s) = halt_reason s"
    and "equity_curve (mark_equity p r s) = equity_curve s @ [cash s + position_qty s * close r]"
  using assms by (simp_all add: mark_equity_def Let_def)

lemma step_halted:
  assumes "halted s"
  shows "step p ml sent r s = Inr (mark_equity p r s)"
  using assms by (simp add: step_def Let_def mark_equity_halted_keeps)

text \<open>From a halted state the rest of the loop only marks the equity.\<close>

lemma bar_loop_halted:
  assumes "halted s" and "\<not> ml_enabled p \<or> idx + length rs \<le> length ml_probs"
  shows "\<exists>s'. bar_loop p ml_probs sentiment idx rs s = Inr s' \<and> halted s' \<and>
           trades s' = trades s \<and> risk_events s' = risk_events s \<and> controls s' = controls s \<and>
           cash s' = cash s \<and> position_qty s' = position_qty s \<and>
           history_momentum s' = history_momentum s \<and>
           history_mean_reversion s' = history_mean_reversion s \<and>
           halt_reason s' = halt_reason s \<and>
           equity_curve s' = equity_curve s @ map (\<lambda>r. cash s + position_qty s * close r) rs"
  using assms
proof (induction rs arbitrary: s idx)
  case Nil
  then show ?case by simp
next
  case (Cons r rs)
  let ?s1 = "mark_equity p r s"
  have h: "halted ?s1" using Cons.prems(1) by (rule mark_equity_halted_keeps)
  have idx: "\<not> (ml_enabled p \<and> idx \<ge> length ml_probs)" using Cons.prems(2) by auto
  have "\<not> ml_enabled p \<or> Suc idx + length rs \<le> length ml_probs" using Cons.prems(2) by auto
  from Cons.IH[OF h this] obtain s' where
    s': "bar_loop p ml_probs sentiment (Suc idx) rs ?s1 = Inr s'" "halted s'"
      "trades s' = trades ?s1" "risk_events s' = risk_events ?s1" "controls s' = controls ?s1"
      "cash s' = cash ?s1" "position_qty s' = position_qty ?s1"
      "history_momentum s' = history_momentum ?s1"
      "history_mean_reversion s' = history_mean_reversion ?s1"
      "halt_reason s' = halt_reason ?s1"
      "equity_curve s' = equity_curve ?s1 @ map (\<lambda>r. cash ?s1 + position_qty ?s1 * close r) rs"
    by blast
  have "bar_loop p ml_probs sentiment idx (r # rs) s = Inr s'"
    using idx s'(1) step_halted[OF Cons.prems(1)] by auto
  then show ?case
    using s' mark_equity_halted_keeps[OF Cons.prems(1), of p r] by simp
qed

lemma bar_loop_append:
  "bar_loop p ml sent idx (pre @ post) s =
     (case bar_loop p ml sent idx pre s of
        Inl e \<Rightarrow> Inl e
      | Inr s' \<Rightarrow> bar_loop p ml sent (idx + length pre) post s')"
proof (induction pre arbitrary: s idx)
  case Nil
  show ?case by simp
next
  case (Cons r pre)
  show ?case
  proof (cases "ml_enabled p \<and> idx \<ge> length ml")
    case True
    then show ?thesis by simp
  next
    case False
    show ?thesis
    proof (cases "step p (if ml_enabled p then ml ! idx else 0.5)
               (if length sent > idx then sent ! idx else 0) r s")
      case (Inl e)
      then show ?thesis using False by auto
    next
      case (Inr s')
      have eq: "idx + length (r # pre) = Suc idx + length pre" by simp
      show ?thesis unfolding eq using False Inr Cons.IH[of "Suc idx" s'] by auto
    qed
  qed
qed

lemma push_signals_keeps [simp]:
  "halted (push_signals p r s) = halted s"
  "position_qty (push_signals p r s) = position_qty s"
  "trades (push_signals p r s) = trades s"
  "cash (push_signals p r s) = cash s"
  "position_entry (push_signals p r s) = position_entry s"
  by (simp_all add: push_signals_def Let_def)

lemma apply_correlation_keeps [simp]:
  "halted (fst (apply_correlation p r c s)) = halted s"
  "position_qty (fst (apply_correlation p r c s)) = position_qty s"
  "trades (fst (apply_correlation p r c s)) = trades s"
  "cash (fst (apply_correlation p r c s)) = cash s"
  "position_entry (fst (apply_correlation p r c s)) = position_entry s"
  by (simp_all add: apply_correlation_def Let_def)

lemma correlation_guard_keeps [simp]:
  "halted (fst (correlation_guard p r s)) = halted s"
  "position_qty (fst (correlation_guard p r s)) = position_qty s"
  "trades (fst (correlation_guard p r s)) = trades s"
  "cash (fst (correlation_guard p r s)) = cash s"
  "position_entry (fst (correlation_guard p r s)) = position_entry s"
  by (cases "current_correlation p (push_signals p r s)"; simp add: correlation_guard_def)+

lemma mark_equity_flat_when_halted:
  assumes "flat_when_halted s"
  shows "flat_when_halted (mark_equity p r s)"
proof -
  define e where "e = cash s + position_qty s * close r"
  define s1 where "s1 = (if e > peak_equity s then s\<lparr>peak_equity := e\<rparr> else s)"
  have s1: "halted s1 = halted s" "position_qty s1 = position_qty s"
    by (simp_all add: s1_def)
  show ?thesis
    using assms s1
    unfolding mark_equity_def Let_def flat_when_halted_def e_def[symmetric] s1_def[symmetric]
    by (cases "position_qty s1 > 0"; cases "position_qty s1 < 0"; simp)
qed

lemma long_exit_is_close:
  "long_exit p sg r s = Some s' \<Longrightarrow> \<exists>px rsn. s' = close_trade p (timestamp r) px rsn s"
  by (auto simp add: long_exit_def Let_def split: if_splits)

lemma short_exit_is_close:
  "short_exit p sg r s = Some s' \<Longrightarrow> \<exists>px rsn. s' = close_trade p (timestamp r) px rsn s"
  by (auto simp add: short_exit_def Let_def split: if_splits)

lemma manage_position_is_close:
  assumes "manage_position p sg r s = Some s'"
  shows "\<exists>px rsn. s' = close_trade p (timestamp r) px rsn s"
proof (cases "long_exit p sg r s")
  case None
  then have "short_exit p sg r s = Some s'"
    using assms by (simp add: manage_position_def split: if_splits)
  then show ?thesis by (rule short_exit_is_close)
next
  case (Some a)
  then have "a = s'" using assms by (simp add: manage_position_def split: if_splits)
  then show ?thesis using Some long_exit_is_close by blast
qed

lemma manage_position_halted:
  "manage_position p sg r s = Some s' \<Longrightarrow> halted s' = halted s"
  by (drule manage_position_is_close) auto

lemma try_entry_halted:
  "try_entry p m sg b r s = Inr s' \<Longrightarrow> halted s' = halted s"
  unfolding try_entry_def Let_def
  by (auto simp add: open_trade_def split: if_splits)

lemma step_cases:
  assumes "step p ml sent r s = Inr s'"
  shows "(halted (mark_equity p r s) \<and> s' = mark_equity p r s) \<or>
         (\<not> halted (mark_equity p r s) \<and> \<not> halted s')"
proof (cases "halted (mark_equity p r s)")
  case True
  then show ?thesis using assms by (simp add: step_def Let_def)
next
  case False
  let ?s2 = "fst (correlation_guard p r (mark_equity p r s))"
  let ?b = "snd (correlation_guard p r (mark_equity p r s))"
  let ?sg = "bar_signals p ?b ml sent r ?s2"
  have h2: "\<not> halted ?s2" using False by simp
  show ?thesis
  proof (cases "manage_position p ?sg r ?s2")
    case None
    then have "try_entry p (resolve_mode p r) ?sg ?b r ?s2 = Inr s'"
      using assms False by (simp add: step_def Let_def)
    then show ?thesis using try_entry_halted h2 False by blast
  next
    case (Some s3)
    then have "s' = s3" using assms False by (simp add: step_def Let_def)
    then show ?thesis using manage_position_halted[OF Some] h2 False by simp
  qed
qed

lemma step_flat_when_halted:
  assumes "flat_when_halted s" and "step p ml sent r s = Inr s'"
  shows "flat_when_halted s'"
  using step_cases[OF assms(2)] mark_equity_flat_when_halted[OF assms(1), of p r]
  by (auto simp add: flat_when_halted_def)

lemma bar_loop_flat_when_halted:
  "flat_when_halted s \<Longrightarrow> bar_loop p ml sent idx rs s = Inr s' \<Longrightarrow> flat_when_halted s'"
proof (induction rs arbitrary: s idx)
  case Nil
  then show ?case by simp
next
  case (Cons r rs)
  from Cons.prems(2) obtain s1 where
    s1: "step p (if ml_enabled p then ml ! idx else 0.5)
           (if length sent > idx then sent ! idx else 0) r s = Inr s1"
      "bar_loop p ml sent (Suc idx) rs s1 = Inr s'"
    by (auto split: if_splits sum.splits)
  from step_flat_when_halted[OF Cons.prems(1) s1(1)] have "flat_when_halted s1" .
  from Cons.IH[OF this s1(2)] show ?case .
qed

lemma initial_flat_when_halted: "flat_when_halted (initial_state p c)"
  by (simp add: flat_when_halted_def initial_state_def)

subsection \<open>The position at the end of a run\<close>

text \<open>
  C2: at the end of every run the simulated position is zero. A position still open after
  the last bar is closed at that bar's close with the reason \<^verbatim>\<open>eod_close\<close>; a flat
  position leaves the state as the loop left it.
\<close>

theorem C2_flat_after_final_bar:
  assumes "simulate p c ml_probs sentiment rows = Inr s"
  shows "position_qty s = 0 \<and>
         (\<exists>s'. bar_loop p ml_probs sentiment 0 rows (initial_state p (max 0.000000001 c)) = Inr s' \<and>
            (if position_qty s' = 0 then s = s'
             else rows \<noteq> [] \<and>
                  s = close_trade p (timestamp (last rows)) (close (last rows)) ''eod_close'' s' \<and>
                  (\<exists>t. trades s = trades s' @ [t] \<and> reason t = ''eod_close'' \<and>
                        price t = py_round 8 (close (last rows)) \<and>
                        trade_ts t = timestamp (last rows))))"
proof -
  from assms obtain s' where
    loop: "bar_loop p ml_probs sentiment 0 rows (initial_state p (max 0.000000001 c)) = Inr s'"
    and eod: "eod_close p rows s' = Inr s"
    by (auto simp add: simulate_def split: sum.splits)
  show ?thesis
  proof (cases "position_qty s' = 0")
    case True
    then have "s = s'" using eod by (simp add: eod_close_def)
    then show ?thesis using True loop by simp
  next
    case False
    then have ne: "rows \<noteq> []"
      and s: "s = close_trade p (timestamp (last rows)) (close (last rows)) ''eod_close'' s'"
      using eod by (auto simp add: eod_close_def split: if_splits)
    from close_trade_open(1)[OF False, of p "timestamp (last rows)" "close (last rows)" "''eod_close''"]
    obtain t where "trades s = trades s' @ [t]" "reason t = ''eod_close''"
      "price t = py_round 8 (close (last rows))" "trade_ts t = timestamp (last rows)"
      using s by auto
    then show ?thesis using False loop ne s by auto
  qed
qed

text \<open>
  A run of one bar in mean-reversion mode: the bar opens a position (close 95 under the
  lower band 96, oscillator 25 under 30), and the end of the data closes it.
\<close>

theorem C2_flat_after_final_bar_witness:
  "\<exists>s. simulate mean_reversion_params 10000 [] [] [example_row 0 95] = Inr s \<and>
       map reason (trades s) = [''entry_signal'', ''eod_close''] \<and>
       position_qty s = 0"
proof -
  have "\<exists>s. simulate mean_reversion_params 10000 [] [] [example_row 0 95] = Inr s \<and>
          map reason (trades s) = [''entry_signal'', ''eod_close'']"
    by (simp add: sim_defs)
  then obtain s where s: "simulate mean_reversion_params 10000 [] [] [example_row 0 95] = Inr s"
    "map reason (trades s) = [''entry_signal'', ''eod_close'']" by (elim exE conjE)
  from C2_flat_after_final_bar[OF s(1)] have "position_qty s = 0" by (elim conjE)
  with s show ?thesis by (intro exI conjI)
qed

subsection \<open>The halted state is terminal\<close>

text \<open>
  C3: once the state machine is halted it stays halted for the rest of the run. If the
  loop over a prefix of the bars ends halted, then over any continuation it appends no
  trade (so none with an entry reason), emits no further risk event (so no further
  drawdown event, and the circuit-breaker counter stays), still appends the marked equity
  of every remaining bar to the curve, and the end-of-data close finds no position.
\<close>

theorem C3_halted_is_terminal:
  assumes pre: "bar_loop p ml_probs sentiment 0 pre (initial_state p c) = Inr sk"
    and h: "halted sk"
    and len: "\<not> ml_enabled p \<or> length pre + length post \<le> length ml_probs"
  shows "\<exists>sn. bar_loop p ml_probs sentiment 0 (pre @ post) (initial_state p c) = Inr sn \<and>
           halted sn \<and>
           trades sn = trades sk \<and>
           risk_events sn = risk_events sk \<and>
           drawdown_circuit_hits (controls sn) = drawdown_circuit_hits (controls sk) \<and>
           equity_curve sn = equity_curve sk @ map (\<lambda>r. cash sk) post \<and>
           eod_close p (pre @ post) sn = Inr sn"
proof -
  have flat: "position_qty sk = 0"
    using bar_loop_flat_when_halted[OF initial_flat_when_halted pre] h
    by (simp add: flat_when_halted_def)
  from bar_loop_halted[OF h, of p "length pre" post ml_probs sentiment] len
  obtain sn where sn: "bar_loop p ml_probs sentiment (length pre) post sk = Inr sn" "halted sn"
      "trades sn = trades sk" "risk_events sn = risk_events sk" "controls sn = controls sk"
      "position_qty sn = position_qty sk"
      "equity_curve sn = equity_curve sk @ map (\<lambda>r. cash sk + position_qty sk * close r) post"
    by auto
  have "bar_loop p ml_probs sentiment 0 (pre @ post) (initial_state p c) = Inr sn"
    using pre sn(1) by (simp add: bar_loop_append)
  moreover have "eod_close p (pre @ post) sn = Inr sn"
    using sn(6) flat by (simp add: eod_close_def)
  ultimately show ?thesis using sn flat by simp
qed


text \<open>
  Three bars with the whole cash at stake: the first opens a position at 95, the second
  marks it at 50 and trips the circuit breaker, and the third, which repeats the entry
  conditions of the first, only marks the equity.
\<close>

theorem C3_halted_is_terminal_witness:
  "\<exists>sk sn.
     bar_loop full_size_params [] [] 0 [example_row 0 95, example_row 1 50]
       (initial_state full_size_params 10000) = Inr sk \<and>
     halted sk \<and>
     map reason (trades sk) = [''entry_signal'', ''drawdown-halt''] \<and>
     bar_loop full_size_params [] [] 0 ([example_row 0 95, example_row 1 50] @ [example_row 2 95])
       (initial_state full_size_params 10000) = Inr sn \<and>
     halted sn \<and> trades sn = trades sk \<and> risk_events sn = risk_events sk \<and>
     equity_curve sn = equity_curve sk @ [cash sk]"
proof -
  have "\<exists>sk. bar_loop full_size_params [] [] 0 [example_row 0 95, example_row 1 50]
       (initial_state full_size_params 10000) = Inr sk \<and> halted sk \<and>
     map reason (trades sk) = [''entry_signal'', ''drawdown-halt'']"
    by (simp add: sim_defs full_size_params_def)
  then obtain sk where sk: "bar_loop full_size_params [] [] 0 [example_row 0 95, example_row 1 50]
       (initial_state full_size_params 10000) = Inr sk" "halted sk"
     "map reason (trades sk) = [''entry_signal'', ''drawdown-halt'']"
    by (elim exE conjE)
  have len: "\<not> ml_enabled full_size_params \<or>
     length [example_row 0 95, example_row 1 50] + length [example_row 2 95] \<le> length ([] :: real list)"
    by (simp add: full_size_params_def build_params_def initial_params_def example_args_def)
  from C3_halted_is_terminal[OF sk(1) sk(2) len] obtain sn where
    "bar_loop full_size_params [] [] 0 ([example_row 0 95, example_row 1 50] @ [example_row 2 95])
       (initial_state full_size_params 10000) = Inr sn"
    "halted sn" "trades sn = trades sk" "risk_events sn = risk_events sk"
    "equity_curve sn = equity_curve sk @ map (\<lambda>r. cash sk) [example_row 2 95]"
    by (elim exE conjE)
  with sk show ?thesis by (intro exI[of _ sk] exI[of _ sn]) simp
qed

subsection \<open>A drawdown limit that is not positive\<close>

text \<open>
  C10: with \<^verbatim>\<open>max_drawdown\<close> at most zero the first simulated bar already trips the
  circuit breaker (its drawdown is 0), before any signal is computed: the run completes
  halted, with an empty trade ledger, one drawdown event at the first bar, the initial
  cash as the equity of every bar, and \<^verbatim>\<open>drawdown_circuit_enabled\<close> reported false.
  The probability series has one entry per row when the overlay is enabled.
\<close>

theorem C10_nonpositive_limit_halts_first_bar:
  assumes md: "max_drawdown p \<le> 0"
    and ne: "rows \<noteq> []"
    and len: "\<not> ml_enabled p \<or> length rows \<le> length ml_probs"
  shows "\<exists>s. simulate p c ml_probs sentiment rows = Inr s \<and>
           halted s \<and>
           halt_reason s = Some (0, max_drawdown p) \<and>
           trades s = [] \<and>
           history_momentum s = [] \<and> history_mean_reversion s = [] \<and>
           risk_events s =
             [Drawdown_circuit_breaker (timestamp (hd rows)) (py_round 8 (max 0.000000001 c))
                (py_round 6 0)] \<and>
           drawdown_circuit_hits (controls s) = 1 \<and>
           \<not> drawdown_circuit_enabled (controls s) \<and>
           equity_curve s = map (\<lambda>r. max 0.000000001 c) rows"
proof -
  obtain r rs where rows: "rows = r # rs" using ne by (cases rows) auto
  define c0 :: real where "c0 = max 0.000000001 c"
  have c0: "c0 > 0" by (simp add: c0_def)
  let ?s1 = "mark_equity p r (initial_state p c0)"
  have m: "halted ?s1" "trades ?s1 = []" "position_qty ?s1 = 0" "cash ?s1 = c0"
    "risk_events ?s1 = [Drawdown_circuit_breaker (timestamp r) (py_round 8 c0) (py_round 6 0)]"
    "drawdown_circuit_hits (controls ?s1) = 1" "\<not> drawdown_circuit_enabled (controls ?s1)"
    "equity_curve ?s1 = [c0]" "halt_reason ?s1 = Some (0, max_drawdown p)"
    "history_momentum ?s1 = []" "history_mean_reversion ?s1 = []"
    using md c0 by (simp_all add: mark_equity_def initial_state_def Let_def)
  have st: "step p (if ml_enabled p then ml_probs ! 0 else 0.5)
              (if length sentiment > 0 then sentiment ! 0 else 0) r (initial_state p c0) = Inr ?s1"
    using m(1) by (simp add: step_def Let_def)
  have len': "\<not> ml_enabled p \<or> Suc 0 + length rs \<le> length ml_probs"
    using len rows by simp
  from bar_loop_halted[OF m(1) len', of sentiment] obtain s where
    s: "bar_loop p ml_probs sentiment (Suc 0) rs ?s1 = Inr s" "halted s"
      "trades s = trades ?s1" "risk_events s = risk_events ?s1" "controls s = controls ?s1"
      "position_qty s = position_qty ?s1"
      "history_momentum s = history_momentum ?s1"
      "history_mean_reversion s = history_mean_reversion ?s1"
      "halt_reason s = halt_reason ?s1"
      "equity_curve s = equity_curve ?s1 @ map (\<lambda>r. cash ?s1 + position_qty ?s1 * close r) rs"
    by (elim exE conjE)
  have idx0: "\<not> (ml_enabled p \<and> 0 \<ge> length ml_probs)" using len rows by auto
  have loop: "bar_loop p ml_probs sentiment 0 rows (initial_state p c0) = Inr s"
    using idx0 st s(1) unfolding rows by simp
  have "simulate p c ml_probs sentiment rows = Inr s"
    using loop s(6) m(3) by (simp add: simulate_def eod_close_def c0_def)
  then show ?thesis
    using s m by (simp add: rows c0_def)
qed


theorem C10_nonpositive_limit_halts_first_bar_witness:
  "\<exists>s. simulate zero_limit_params 10000 [] [] [example_row 0 95, example_row 1 95] = Inr s \<and>
       halted s \<and> trades s = [] \<and> drawdown_circuit_hits (controls s) = 1 \<and>
       \<not> drawdown_circuit_enabled (controls s) \<and> equity_curve s = [10000, 10000]"
proof -
  have md: "max_drawdown zero_limit_params \<le> 0"
    by (simp add: zero_limit_params_def build_params_def initial_params_def example_args_def)
  have ne: "[example_row 0 95, example_row 1 95] \<noteq> []" by simp
  have len: "\<not> ml_enabled zero_limit_params \<or>
     length [example_row 0 95, example_row 1 95] \<le> length ([] :: real list)"
    by (simp add: zero_limit_params_def build_params_def initial_params_def example_args_def)
  from C10_nonpositive_limit_halts_first_bar[OF md ne len, of 10000 "[]"]
  show ?thesis by auto
qed


subsection \<open>Stops before exits, and their reason codes\<close>

lemma py_round_8_small: "py_round 8 (1 / 100000000) = 1 / 100000000"
  by (simp add: py_round_def round_half_even_def Let_def)

lemma py_round_8_int: "py_round 8 (of_int k) = of_int k"
  by (simp add: py_round_def round_half_even_def Let_def)

lemma mark_equity_not_halted:
  assumes "\<not> halted (mark_equity p r s)"
  shows "position_qty (mark_equity p r s) = position_qty s"
    and "position_entry (mark_equity p r s) = position_entry s"
    and "trades (mark_equity p r s) = trades s"
    and "cash (mark_equity p r s) = cash s"
    and "\<not> halted s"
  using assms by (simp_all add: mark_equity_def Let_def split: if_splits)

text \<open>
  C5 (as stated) fails in three places, each behind an explicit test of the code.
  The reason of the ATR stop: a short position stopped by the ATR is closed with
  \<^verbatim>\<open>stop_loss_atr_short\<close> (in stat-arb mode the first bar, z-score 2.5, opens a short
  at 105, and the second, whose high 111 reaches the stop 109, closes it).
  The guard \<^verbatim>\<open>atr > 0\<close>: on a bar whose ATR is zero no exit is checked, so a long
  position whose soft exit fires on the second bar is still open on the third and is
  closed by the end of the data.
  The floor of the stop price: a long position entered at 4 has its stop at 0; the bar
  whose low is 0 closes it at \<^verbatim>\<open>1e-8\<close>.
\<close>

theorem C5_reason_and_guard_counterexample:
  "run_reasons (simulate statarb_params 10000 [] [] [example_row 0 105, example_row 1 110])
     = [''entry_signal_statarb'', ''stop_loss_atr_short''] \<and>
   exit_signal (bar_signals mean_reversion_params False 0.5 0 (flat_row 1 105)
                  (initial_state mean_reversion_params 10000)) \<and>
   run_ledger (simulate mean_reversion_params 10000 [] []
                 [example_row 0 95, flat_row 1 105, example_row 2 100])
     = [(0, 95, ''entry_signal''), (2, 100, ''eod_close'')] \<and>
   run_ledger (simulate mean_reversion_params 10000 [] [] [example_row 0 4, example_row 1 1])
     = [(0, 4, ''entry_signal''), (1, 1 / 100000000, ''stop_loss_atr'')]"
proof (intro conjI)
  show "run_reasons (simulate statarb_params 10000 [] [] [example_row 0 105, example_row 1 110])
     = [''entry_signal_statarb'', ''stop_loss_atr_short'']"
    by (simp add: sim_defs statarb_params_def run_reasons_def zscore_def)
  show "exit_signal (bar_signals mean_reversion_params False 0.5 0 (flat_row 1 105)
                  (initial_state mean_reversion_params 10000))"
    by (simp add: sim_defs mean_reversion_params_def flat_row_def)
  have r95: "py_round 8 95 = 95" "py_round 8 100 = 100" "py_round 8 4 = 4"
    using py_round_8_int[of 95] py_round_8_int[of 100] py_round_8_int[of 4] by simp_all
  show "run_ledger (simulate mean_reversion_params 10000 [] []
                 [example_row 0 95, flat_row 1 105, example_row 2 100])
     = [(0, 95, ''entry_signal''), (2, 100, ''eod_close'')]"
    by (simp add: sim_defs mean_reversion_params_def run_ledger_def flat_row_def r95)
  show "run_ledger (simulate mean_reversion_params 10000 [] [] [example_row 0 4, example_row 1 1])
     = [(0, 4, ''entry_signal''), (1, 1 / 100000000, ''stop_loss_atr'')]"
    by (simp add: sim_defs mean_reversion_params_def run_ledger_def r95 py_round_8_small)
qed


text \<open>
  C5 (amended): on a bar where a position is open, the drawdown check has not halted the
  run and the bar's ATR is positive, the checks run in the order ATR stop, z-score stop,
  soft exit, and the first that fires closes the position and ends the bar. The ATR stop
  carries \<^verbatim>\<open>stop_loss_atr\<close> for a long position and \<^verbatim>\<open>stop_loss_atr_short\<close> for a short
  one and closes at \<^verbatim>\<open>max(stop_price, 1e-8)\<close> with the stop price
  \<open>entry \<mp> multiplier \<times> ATR\<close>; the z-score stop carries \<^verbatim>\<open>statarb_stop_loss\<close> (its
  fill price is not part of the statement); the soft exit carries \<^verbatim>\<open>exit_signal\<close> at the
  bar's close. If none fires the bar leaves the position as it is. Each close appends one
  trade with the given reason and the price rounded to 8 places, and leaves the position
  flat.
\<close>

theorem C5_exit_priority:
  assumes nh: "\<not> halted (mark_equity p r s)"
    and pos: "position_qty s \<noteq> 0"
    and atr: "atr r > 0"
    and s2: "s2 = fst (correlation_guard p r (mark_equity p r s))"
    and sg: "sg = bar_signals p (snd (correlation_guard p r (mark_equity p r s))) ml sent r s2"
    and stop: "stop = (if position_qty s > 0 then position_entry s - stop_atr_mult p * atr r
                       else position_entry s + stop_atr_mult p * atr r)"
    and hit: "hit = (if position_qty s > 0 then low r \<le> stop else high r \<ge> stop)"
    and code: "code = (if position_qty s > 0 then ''stop_loss_atr'' else ''stop_loss_atr_short'')"
  shows "(hit \<longrightarrow>
            step p ml sent r s = Inr (close_trade p (timestamp r) (max stop 0.00000001) code s2)) \<and>
         (\<not> hit \<and> stop_loss_signal sg \<longrightarrow>
            (\<exists>fill. step p ml sent r s =
                Inr (close_trade p (timestamp r) fill ''statarb_stop_loss'' s2))) \<and>
         (\<not> hit \<and> \<not> stop_loss_signal sg \<and> exit_signal sg \<longrightarrow>
            step p ml sent r s = Inr (close_trade p (timestamp r) (close r) ''exit_signal'' s2)) \<and>
         (\<not> hit \<and> \<not> stop_loss_signal sg \<and> \<not> exit_signal sg \<longrightarrow>
            step p ml sent r s = Inr s2) \<and>
         trades s2 = trades s \<and> position_qty s2 = position_qty s \<and>
         (\<exists>t. trades (close_trade p (timestamp r) px rsn s2) = trades s @ [t] \<and>
              reason t = rsn \<and> price t = py_round 8 px \<and> trade_ts t = timestamp r) \<and>
         position_qty (close_trade p (timestamp r) px rsn s2) = 0"
proof -
  have k: "position_qty s2 = position_qty s" "position_entry s2 = position_entry s"
    "trades s2 = trades s" "\<not> halted s2"
    using mark_equity_not_halted[OF nh] nh by (simp_all add: s2)
  have mp: "manage_position p sg r s2 =
      (if hit then Some (close_trade p (timestamp r) (max stop 0.00000001) code s2)
       else if stop_loss_signal sg then
         Some (close_trade p (timestamp r) (max stop 0.00000001) ''statarb_stop_loss'' s2)
       else if exit_signal sg then
         Some (close_trade p (timestamp r) (close r) ''exit_signal'' s2)
       else None)"
  proof (cases "position_qty s > 0")
    case True
    then show ?thesis
      using k pos atr
      by (simp add: manage_position_def long_exit_def short_exit_def Let_def stop hit code)
  next
    case False
    then have "position_qty s < 0" using pos by simp
    then show ?thesis
      using k pos atr
      by (simp add: manage_position_def long_exit_def short_exit_def Let_def stop hit code)
  qed
  have te: "try_entry p m sg b r s2 = Inr s2" for m b
    using k(1) pos by (simp add: try_entry_def)
  have st: "step p ml sent r s = (case manage_position p sg r s2 of Some s3 \<Rightarrow> Inr s3
              | None \<Rightarrow> Inr s2)"
    using nh te by (simp add: step_def Let_def s2 sg split: option.splits)
  have "position_qty s2 \<noteq> 0" using k pos by simp
  from close_trade_open(1)[OF this, of p "timestamp r" px rsn]
  have ct: "\<exists>t. trades (close_trade p (timestamp r) px rsn s2) = trades s @ [t] \<and>
              reason t = rsn \<and> price t = py_round 8 px \<and> trade_ts t = timestamp r"
    using k(3) by auto
  have z: "\<exists>fill. Inr (close_trade p (timestamp r) (max stop 0.00000001) ''statarb_stop_loss'' s2)
             = (Inr (close_trade p (timestamp r) fill ''statarb_stop_loss'' s2) :: py_error + sim_state)"
    by (rule exI[of _ "max stop 0.00000001"]) (rule refl)
  show ?thesis
    using ct k z by (simp add: st mp)
qed

text \<open>The second bar of the first run above, taken from the state the first bar leaves.\<close>

theorem C5_exit_priority_witness:
  "\<exists>s1. bar_loop statarb_params [] [] 0 [example_row 0 105] (initial_state statarb_params 10000)
          = Inr s1 \<and>
        position_qty s1 < 0 \<and>
        step statarb_params 0.5 0 (example_row 1 110) s1 =
          Inr (close_trade statarb_params 1 109 ''stop_loss_atr_short''
                 (fst (correlation_guard statarb_params (example_row 1 110)
                        (mark_equity statarb_params (example_row 1 110) s1))))"
proof -
  have "\<exists>s1. bar_loop statarb_params [] [] 0 [example_row 0 105] (initial_state statarb_params 10000)
          = Inr s1 \<and> position_qty s1 = - (200 / 105) \<and> position_entry s1 = 105 \<and>
          \<not> halted (mark_equity statarb_params (example_row 1 110) s1)"
    by (simp add: sim_defs statarb_params_def zscore_def)
  then obtain s1 where s1:
    "bar_loop statarb_params [] [] 0 [example_row 0 105] (initial_state statarb_params 10000) = Inr s1"
    "position_qty s1 = - (200 / 105)" "position_entry s1 = 105"
    "\<not> halted (mark_equity statarb_params (example_row 1 110) s1)"
    by (elim exE conjE)
  have pos: "position_qty s1 \<noteq> 0" using s1(2) by simp
  have mult: "stop_atr_mult statarb_params = 2"
    by (simp add: statarb_params_def build_params_def initial_params_def example_args_def)
  have atr: "atr (example_row 1 110) > 0" by (simp add: example_row_def)
  from C5_exit_priority[OF s1(4) pos atr refl refl refl refl refl, where ml = "0.5" and sent = 0]
  have "step statarb_params 0.5 0 (example_row 1 110) s1 =
          Inr (close_trade statarb_params 1 109 ''stop_loss_atr_short''
                 (fst (correlation_guard statarb_params (example_row 1 110)
                        (mark_equity statarb_params (example_row 1 110) s1))))"
    using s1(2,3) mult by (simp add: example_row_def)
  with s1 show ?thesis by (intro exI[of _ s1]) simp
qed



subsection \<open>The risk summary counts the risk blocks\<close>

lemma counts_agree_initial: "counts_agree initial_exec_state"
  by (simp add: counts_agree_def initial_exec_state_def)

lemma counts_agree_add:
  assumes "counts_agree x" and "st \<in> {''pass'', ''skip'', ''blocked'', ''fail''}"
  shows "counts_agree (add_risk_block nm st x)"
proof -
  from assms(1) obtain a b c d where
    rs: "risk_summary x = [(''pass'', a), (''skip'', b), (''blocked'', c), (''fail'', d)]"
    and len: "a + b + c + d = length (risk_blocks x)"
    by (auto simp add: counts_agree_def map_eq_Cons_conv)
  show ?thesis
    using assms(2) len by (auto simp add: counts_agree_def add_risk_block_def rs)
qed

lemmas add_ok = counts_agree_add[where st = "''pass''", simplified]
  counts_agree_add[where st = "''skip''", simplified]
  counts_agree_add[where st = "''blocked''", simplified]
  counts_agree_add[where st = "''fail''", simplified]

lemma validate_order_agree:
  "counts_agree x \<Longrightarrow> counts_agree (snd (validate_order a x))"
  by (simp add: validate_order_def Let_def add_ok)

lemma dry_run_agree:
  "counts_agree x \<Longrightarrow> counts_agree (snd (dry_run a x))"
  by (simp add: dry_run_def Let_def add_ok split: option.splits)

lemma live_preflight_agree:
  "counts_agree x \<Longrightarrow> counts_agree (snd (live_preflight a env x))"
  by (simp add: live_preflight_def Let_def add_ok split: call.splits)

lemma check_notional_agree:
  "counts_agree x \<Longrightarrow> counts_agree (snd (check_notional n c x))"
  by (simp add: check_notional_def add_ok)

lemma live_notional_agree:
  "counts_agree x \<Longrightarrow> counts_agree (snd (live_notional a env x))"
  by (simp add: live_notional_def Let_def add_ok check_notional_agree split: call.splits option.splits)

lemma buy_balance_agree:
  "counts_agree x \<Longrightarrow> counts_agree (snd (buy_balance a env q x))"
  by (simp add: buy_balance_def Let_def add_ok balance_failed_def balance_blocked_def
      split: call.splits option.splits)

lemma live_balance_agree:
  "counts_agree x \<Longrightarrow> counts_agree (snd (live_balance a env x))"
  by (simp add: live_balance_def Let_def add_ok buy_balance_agree balance_failed_def
      balance_blocked_def split: call.splits option.splits balance_value.splits)

lemma submit_order_agree:
  "counts_agree x \<Longrightarrow> counts_agree (snd (submit_order env x))"
  by (simp add: submit_order_def add_ok split: call.splits)

lemma then_stage_agree:
  assumes "counts_agree (snd res)" and "\<And>x. counts_agree x \<Longrightarrow> counts_agree (snd (f x))"
  shows "counts_agree (snd (then_stage res f))"
  using assms by (cases "fst res") (simp_all add: then_stage_def)

lemma run_stages_agree: "counts_agree (snd (run_stages a env))"
  unfolding run_stages_def
  by (intro then_stage_agree validate_order_agree counts_agree_initial)
     (auto intro!: then_stage_agree dry_run_agree live_preflight_agree live_notional_agree
        live_balance_agree submit_order_agree)

text \<open>
  C9: in every response \<^verbatim>\<open>run_execute\<close> returns, the four counters of
  \<^verbatim>\<open>risk_summary\<close> (pass, skip, blocked, fail) add up to the number of entries of
  \<^verbatim>\<open>risk_blocks\<close>, in the execution report and in the response itself.
\<close>

theorem C9_summary_counts_blocks:
  assumes "run_execute a env = Inr resp"
  shows "sum_list (map snd (report_risk_summary (report resp)))
           = length (report_risk_blocks (report resp)) \<and>
         map fst (report_risk_summary (report resp)) = [''pass'', ''skip'', ''blocked'', ''fail''] \<and>
         response_risk_summary resp = report_risk_summary (report resp) \<and>
         response_risk_blocks resp = report_risk_blocks (report resp)"
proof -
  obtain out x where r: "run_stages a env = (out, x)" by (cases "run_stages a env")
  have "counts_agree x" using run_stages_agree[of a env] r by simp
  moreover obtain ok st where "out = Finished ok st"
    using assms r by (cases out) (simp_all add: run_execute_def)
  ultimately show ?thesis
    using assms r by (auto simp add: run_execute_def counts_agree_def)
qed


text \<open>
  The dry run of the test suite: a limit buy of 0.01 at 100 under a notional cap of 2.
\<close>

theorem C9_summary_counts_blocks_witness:
  "\<exists>resp. run_execute test_order offline_env = Inr resp \<and>
     status resp = ''dry_run'' \<and>
     map block_status (report_risk_blocks (report resp))
       = [''pass'', ''pass'', ''pass'', ''skip'', ''pass'', ''skip''] \<and>
     sum_list (map snd (report_risk_summary (report resp)))
       = length (report_risk_blocks (report resp))"
proof -
  have "\<exists>resp. run_execute test_order offline_env = Inr resp \<and> status resp = ''dry_run'' \<and>
     map block_status (report_risk_blocks (report resp))
       = [''pass'', ''pass'', ''pass'', ''skip'', ''pass'', ''skip'']"
    by (simp add: run_execute_def run_stages_def then_stage_def validate_order_def dry_run_def
        add_risk_block_def initial_exec_state_def test_order_def offline_env_def upper_def Let_def)
  then obtain resp where r: "run_execute test_order offline_env = Inr resp"
    "status resp = ''dry_run''"
    "map block_status (report_risk_blocks (report resp))
       = [''pass'', ''pass'', ''pass'', ''skip'', ''pass'', ''skip'']"
    by (elim exE conjE)
  from C9_summary_counts_blocks[OF r(1)]
  have "sum_list (map snd (report_risk_summary (report resp)))
           = length (report_risk_blocks (report resp))" by (elim conjE)
  with r show ?thesis by (intro exI[of _ resp] conjI)
qed


subsection \<open>Where the indicator frame is defined\<close>

lemma rolling_at_undefined:
  assumes "i < length xs"
  shows "(rolling_at w f xs i = None) =
           (w = 0 \<or> i + 1 < w \<or> (\<exists>j. i + 1 - w \<le> j \<and> j \<le> i \<and> xs ! j = None))"
proof (cases "w = 0 \<or> i + 1 < w")
  case True
  then show ?thesis by (auto simp add: rolling_at_def)
next
  case False
  then have w: "0 < w" "w \<le> i + 1" by auto
  have len: "length (take w (drop (i + 1 - w) xs)) = w"
    using assms w by simp
  have "(None \<in> set (take w (drop (i + 1 - w) xs))) =
          (\<exists>k < w. xs ! (i + 1 - w + k) = None)"
    using len assms w by (auto simp add: in_set_conv_nth)
  also have "\<dots> = (\<exists>j. i + 1 - w \<le> j \<and> j \<le> i \<and> xs ! j = None)"
  proof
    assume "\<exists>k<w. xs ! (i + 1 - w + k) = None"
    then obtain k where "k < w" "xs ! (i + 1 - w + k) = None" by blast
    then show "\<exists>j. i + 1 - w \<le> j \<and> j \<le> i \<and> xs ! j = None"
      using w by (intro exI[of _ "i + 1 - w + k"]) auto
  next
    assume "\<exists>j. i + 1 - w \<le> j \<and> j \<le> i \<and> xs ! j = None"
    then obtain j where j: "i + 1 - w \<le> j" "j \<le> i" "xs ! j = None" by blast
    then show "\<exists>k<w. xs ! (i + 1 - w + k) = None"
      using w by (intro exI[of _ "j - (i + 1 - w)"]) auto
  qed
  finally have mem: "(None \<in> set (take w (drop (i + 1 - w) xs))) =
      (\<exists>j. i + 1 - w \<le> j \<and> j \<le> i \<and> xs ! j = None)" .
  have "(rolling_at w f xs i = None) = (None \<in> set (take w (drop (i + 1 - w) xs)))"
    using False by (simp add: rolling_at_def Let_def)
  then show ?thesis using mem False by blast
qed

lemma length_series_diff [simp]: "length (series_diff xs) = length xs"
  by (simp add: series_diff_def)

lemma length_closes [simp]: "length (closes bars) = length bars"
  by (simp add: closes_def)

lemma length_true_range [simp]: "length (true_range bars) = length bars"
  by (simp add: true_range_def)

lemma closes_nth: "j < length bars \<Longrightarrow> closes bars ! j = Some (bar_close (bars ! j))"
  by (simp add: closes_def)

lemma true_range_nth: "j < length bars \<Longrightarrow> true_range bars ! j \<noteq> None"
  by (simp add: true_range_def Let_def)

lemma rolling_at_closes:
  assumes "i < length bars"
  shows "(rolling_at w f (closes bars) i = None) = (w = 0 \<or> i + 1 < w)"
proof -
  have "closes bars ! j \<noteq> None" if "j \<le> i" for j
  proof -
    have "j < length bars" using that assms by simp
    then show ?thesis by (simp add: closes_nth)
  qed
  then have none: "(\<exists>j. i + 1 - w \<le> j \<and> j \<le> i \<and> closes bars ! j = None) = False"
    by blast
  have "i < length (closes bars)" using assms by simp
  from rolling_at_undefined[OF this, of w f] show ?thesis unfolding none by simp
qed

lemma rolling_at_true_range:
  assumes "i < length bars"
  shows "(rolling_at w f (true_range bars) i = None) = (w = 0 \<or> i + 1 < w)"
proof -
  have "true_range bars ! j \<noteq> None" if "j \<le> i" for j
  proof -
    have "j < length bars" using that assms by simp
    then show ?thesis by (rule true_range_nth)
  qed
  then have none: "(\<exists>j. i + 1 - w \<le> j \<and> j \<le> i \<and> true_range bars ! j = None) = False"
    by blast
  have "i < length (true_range bars)" using assms by simp
  from rolling_at_undefined[OF this, of w f] show ?thesis unfolding none by simp
qed

lemma diff_closes_nth:
  assumes "j < length bars"
  shows "(map (map_option g) (series_diff (closes bars)) ! j = None) = (j = 0)"
  using assms by (simp add: series_diff_def closes_def opt2_def)

lemma avg_undefined:
  assumes "i < length bars" and "0 < w"
  shows "(rolling_at w f (map (map_option g) (series_diff (closes bars))) i = None) = (i < w)"
proof -
  let ?xs = "map (map_option g) (series_diff (closes bars))"
  have zero: "?xs ! 0 = None"
  proof -
    have "0 < length bars" using assms(1) by linarith
    from diff_closes_nth[OF this, of g, THEN iffD2, OF refl] show ?thesis .
  qed
  have ex: "(\<exists>j. i + 1 - w \<le> j \<and> j \<le> i \<and> ?xs ! j = None) = (i + 1 - w = 0)"
  proof
    assume "\<exists>j. i + 1 - w \<le> j \<and> j \<le> i \<and> ?xs ! j = None"
    then obtain j where j: "i + 1 - w \<le> j" "j \<le> i" "?xs ! j = None" by blast
    then have "j < length bars" using assms(1) by simp
    from diff_closes_nth[OF this, of g, THEN iffD1, OF j(3)] have "j = 0" .
    then show "i + 1 - w = 0" using j(1) by simp
  next
    assume "i + 1 - w = 0"
    then show "\<exists>j. i + 1 - w \<le> j \<and> j \<le> i \<and> ?xs ! j = None"
      using zero by (intro exI[of _ 0]) simp
  qed
  have "i < length ?xs" using assms(1) by simp
  from rolling_at_undefined[OF this, of w f]
  have "(rolling_at w f ?xs i = None) = (w = 0 \<or> i + 1 < w \<or> i + 1 - w = 0)"
    unfolding ex .
  then show ?thesis using assms(2) by linarith
qed

lemma opt2_undefined [simp]: "(opt2 f a b = None) = (a = None \<or> b = None)"
  by (simp add: opt2_def split: option.splits)

lemma zero_to_nan_undefined [simp]: "(zero_to_nan v = None) = (v = None \<or> v = Some 0)"
  by (simp add: zero_to_nan_def)

lemma avg_nth:
  assumes "i < length bars"
  shows "avg_loss w (closes bars) ! i =
           rolling_at w mean (map (map_option (\<lambda>d. - min d 0)) (series_diff (closes bars))) i"
    and "avg_gain w (closes bars) ! i =
           rolling_at w mean (map (map_option (\<lambda>d. max d 0)) (series_diff (closes bars))) i"
  using assms by (simp_all add: avg_loss_def avg_gain_def rolling_def)

lemma rsi_undefined:
  assumes "i < length bars" and "0 < w"
  shows "(rsi_series w (closes bars) ! i = None) =
           (i < w \<or> avg_loss w (closes bars) ! i = Some 0)"
proof -
  have g: "(avg_gain w (closes bars) ! i = None) = (i < w)"
    and l: "(avg_loss w (closes bars) ! i = None) = (i < w)"
    using avg_undefined[OF assms] by (simp_all add: avg_nth[OF assms(1)])
  have "rsi_series w (closes bars) ! i =
          map_option (\<lambda>rs. 100 - 100 / (1 + rs))
            (opt2 (/) (avg_gain w (closes bars) ! i) (zero_to_nan (avg_loss w (closes bars) ! i)))"
    using assms(1) by (simp add: rsi_series_def)
  then have "(rsi_series w (closes bars) ! i = None) =
          (avg_gain w (closes bars) ! i = None \<or> avg_loss w (closes bars) ! i = None \<or>
           avg_loss w (closes bars) ! i = Some 0)"
    by simp
  then show ?thesis unfolding g l by simp
qed

lemma build_params_windows:
  "2 \<le> bb_window (build_params a)" "2 \<le> rsi_period (build_params a)"
  "2 \<le> momentum_fast (build_params a)" "2 \<le> momentum_slow (build_params a)"
  "2 \<le> atr_window (build_params a)"
  by (auto simp add: build_params_def initial_params_def Let_def)

lemma frame_nth:
  assumes "i < length bars"
  shows "fr_bar (add_indicators p bars ! i) = bars ! i"
    and "fr_sma (add_indicators p bars ! i) = rolling_at (nat (bb_window p)) mean (closes bars) i"
    and "fr_std (add_indicators p bars ! i) = rolling_at (nat (bb_window p)) pop_std (closes bars) i"
    and "fr_ma_fast (add_indicators p bars ! i) = rolling_at (nat (momentum_fast p)) mean (closes bars) i"
    and "fr_ma_slow (add_indicators p bars ! i) = rolling_at (nat (momentum_slow p)) mean (closes bars) i"
    and "fr_rsi (add_indicators p bars ! i) = rsi_series (nat (rsi_period p)) (closes bars) ! i"
    and "fr_atr (add_indicators p bars ! i) = rolling_at (nat (atr_window p)) mean (true_range bars) i"
    and "fr_bb_upper (add_indicators p bars ! i) =
           opt2 (\<lambda>m sd. m + bb_std p * sd) (rolling_at (nat (bb_window p)) mean (closes bars) i)
             (rolling_at (nat (bb_window p)) pop_std (closes bars) i)"
    and "fr_bb_lower (add_indicators p bars ! i) =
           opt2 (\<lambda>m sd. m - bb_std p * sd) (rolling_at (nat (bb_window p)) mean (closes bars) i)
             (rolling_at (nat (bb_window p)) pop_std (closes bars) i)"
    and "fr_trend_strength (add_indicators p bars ! i) =
           opt2 (\<lambda>f sl. \<bar>f - sl\<bar> / sl) (rolling_at (nat (momentum_fast p)) mean (closes bars) i)
             (zero_to_nan (rolling_at (nat (momentum_slow p)) mean (closes bars) i))"
  using assms by (simp_all add: add_indicators_def Let_def)

lemma warmup_le:
  fixes b r f s t :: int
  assumes "0 \<le> r"
  shows "(nat (max b (max (r + 1) (max f (max s t)))) \<le> n) =
           (nat b \<le> n \<and> nat r + 1 \<le> n \<and> nat f \<le> n \<and> nat s \<le> n \<and> nat t \<le> n)"
  using assms by (auto simp add: nat_le_iff)

lemma row_defined_iff:
  assumes i: "i < length bars"
  shows "row_defined (add_indicators (build_params a) bars ! i) =
           (warmup (build_params a) \<le> i + 1 \<and>
            avg_loss (nat (rsi_period (build_params a))) (closes bars) ! i \<noteq> Some 0 \<and>
            fr_ma_slow (add_indicators (build_params a) bars ! i) \<noteq> Some 0)"
proof -
  let ?p = "build_params a"
  note w = build_params_windows[of a]
  have bb: "(rolling_at (nat (bb_window ?p)) f (closes bars) i = None) = (i + 1 < nat (bb_window ?p))" for f
    using w(1) by (simp add: rolling_at_closes[OF i])
  have fa: "(rolling_at (nat (momentum_fast ?p)) mean (closes bars) i = None) = (i + 1 < nat (momentum_fast ?p))"
    using w(3) by (simp add: rolling_at_closes[OF i])
  have sl: "(rolling_at (nat (momentum_slow ?p)) mean (closes bars) i = None) = (i + 1 < nat (momentum_slow ?p))"
    using w(4) by (simp add: rolling_at_closes[OF i])
  have at: "(rolling_at (nat (atr_window ?p)) mean (true_range bars) i = None) = (i + 1 < nat (atr_window ?p))"
    using w(5) by (simp add: rolling_at_true_range[OF i])
  have "0 < nat (rsi_period ?p)" using w(2) by simp
  from rsi_undefined[OF i this]
  have rs: "(rsi_series (nat (rsi_period ?p)) (closes bars) ! i = None) =
           (i < nat (rsi_period ?p) \<or> avg_loss (nat (rsi_period ?p)) (closes bars) ! i = Some 0)" .
  have wu: "(warmup ?p \<le> i + 1) =
      (\<not> i + 1 < nat (bb_window ?p) \<and> \<not> i < nat (rsi_period ?p) \<and> \<not> i + 1 < nat (momentum_fast ?p) \<and>
       \<not> i + 1 < nat (momentum_slow ?p) \<and> \<not> i + 1 < nat (atr_window ?p))"
    using w(2) by (auto simp add: warmup_def warmup_le)
  show ?thesis
    unfolding row_defined_def frame_nth[OF i] opt2_undefined zero_to_nan_undefined bb fa sl at rs wu
    by blast
qed

lemmas ind_defs = add_indicators_def rolling_at_def rsi_series_def avg_gain_def avg_loss_def
  rolling_def series_diff_def closes_def true_range_def opt2_def zero_to_nan_def row_defined_def
  short_window_params_def build_params_def initial_params_def example_args_def mk_bar_def
  zigzag_bars_def mean_def Let_def

text \<open>
  C4 (as stated) has exactly the first \<open>max(window) - 1\<close> bars undefined. With every
  window at 2 that is one bar, yet the second bar has no oscillator value: the oscillator
  averages differences of closes, and the first difference does not exist.
\<close>

theorem C4_warmup_counterexample:
  "max_window short_window_params - 1 = 1 \<and>
   \<not> row_defined (add_indicators short_window_params zigzag_bars ! 1)"
  by (simp add: ind_defs max_window_def)

text \<open>
  C4 (amended): the frame has one row per bar, in order. A row is defined exactly when
  \<open>max(bb_window, rsi_period + 1, momentum_fast, momentum_slow, atr_window)\<close> bars have
  been seen, the average loss over the oscillator window is not zero and the slow trend
  average is not zero (a zero denominator is replaced by NaN). The rows kept for the
  state machine are those whose nine indicators are all defined.
\<close>

theorem C4_frame_alignment_amended:
  "length (add_indicators (build_params a) bars) = length bars \<and>
   (\<forall>i < length bars.
      fr_bar (add_indicators (build_params a) bars ! i) = bars ! i \<and>
      row_defined (add_indicators (build_params a) bars ! i) =
        (warmup (build_params a) \<le> i + 1 \<and>
         avg_loss (nat (rsi_period (build_params a))) (closes bars) ! i \<noteq> Some 0 \<and>
         fr_ma_slow (add_indicators (build_params a) bars ! i) \<noteq> Some 0)) \<and>
   (\<forall>fr \<in> set (dropna_indicators (add_indicators (build_params a) bars)).
      fr_sma fr \<noteq> None \<and> fr_std fr \<noteq> None \<and> fr_bb_upper fr \<noteq> None \<and>
      fr_bb_lower fr \<noteq> None \<and> fr_rsi fr \<noteq> None \<and> fr_atr fr \<noteq> None \<and>
      fr_ma_fast fr \<noteq> None \<and> fr_ma_slow fr \<noteq> None \<and> fr_trend_strength fr \<noteq> None) \<and>
   indicator_rows (build_params a) bars
     = map to_row (filter row_defined (add_indicators (build_params a) bars))"
proof (intro conjI allI impI ballI)
  show "length (add_indicators (build_params a) bars) = length bars"
    by (simp add: add_indicators_def)
next
  fix i assume "i < length bars"
  then show "fr_bar (add_indicators (build_params a) bars ! i) = bars ! i"
    by (rule frame_nth(1))
next
  fix i assume "i < length bars"
  then show "row_defined (add_indicators (build_params a) bars ! i) =
        (warmup (build_params a) \<le> i + 1 \<and>
         avg_loss (nat (rsi_period (build_params a))) (closes bars) ! i \<noteq> Some 0 \<and>
         fr_ma_slow (add_indicators (build_params a) bars ! i) \<noteq> Some 0)"
    by (rule row_defined_iff)
next
  show "indicator_rows (build_params a) bars
     = map to_row (filter row_defined (add_indicators (build_params a) bars))"
    by (simp add: indicator_rows_def dropna_indicators_def)
next
  fix fr assume "fr \<in> set (dropna_indicators (add_indicators (build_params a) bars))"
  then have d: "row_defined fr" by (simp add: dropna_indicators_def)
  from d show "fr_sma fr \<noteq> None" by (simp add: row_defined_def)
  from d show "fr_std fr \<noteq> None" by (simp add: row_defined_def)
  from d show "fr_bb_upper fr \<noteq> None" by (simp add: row_defined_def)
  from d show "fr_bb_lower fr \<noteq> None" by (simp add: row_defined_def)
  from d show "fr_rsi fr \<noteq> None" by (simp add: row_defined_def)
  from d show "fr_atr fr \<noteq> None" by (simp add: row_defined_def)
  from d show "fr_ma_fast fr \<noteq> None" by (simp add: row_defined_def)
  from d show "fr_ma_slow fr \<noteq> None" by (simp add: row_defined_def)
  from d show "fr_trend_strength fr \<noteq> None" by (simp add: row_defined_def)
qed

text \<open>
  Four bars closing at 2, 1, 2, 1 with every window at 2: the first two rows are
  dropped, the last two are simulated.
\<close>

theorem C4_frame_alignment_amended_witness:
  "length (add_indicators short_window_params zigzag_bars) = 4 \<and>
   warmup short_window_params = 3 \<and>
   \<not> row_defined (add_indicators short_window_params zigzag_bars ! 0) \<and>
   \<not> row_defined (add_indicators short_window_params zigzag_bars ! 1) \<and>
   row_defined (add_indicators short_window_params zigzag_bars ! 2) \<and>
   row_defined (add_indicators short_window_params zigzag_bars ! 3) \<and>
   map timestamp (indicator_rows short_window_params zigzag_bars) = [2, 3]"
proof -
  note inst = C4_frame_alignment_amended[of "example_args\<lparr>arg_bb_window := 2, arg_rsi_period := 2,
     arg_momentum_fast := 2, arg_momentum_slow := 2, arg_atr_window := 2\<rparr>" zigzag_bars,
     folded short_window_params_def]
  have len: "length zigzag_bars = 4" by (simp add: zigzag_bars_def)
  have wu: "warmup short_window_params = 3"
    by (simp add: warmup_def short_window_params_def build_params_def initial_params_def
        example_args_def)
  from inst have l: "length (add_indicators short_window_params zigzag_bars) = length zigzag_bars"
    and rd: "\<And>i. i < length zigzag_bars \<Longrightarrow>
      row_defined (add_indicators short_window_params zigzag_bars ! i) =
        (warmup short_window_params \<le> i + 1 \<and>
         avg_loss (nat (rsi_period short_window_params)) (closes zigzag_bars) ! i \<noteq> Some 0 \<and>
         fr_ma_slow (add_indicators short_window_params zigzag_bars ! i) \<noteq> Some 0)"
    and rows: "indicator_rows short_window_params zigzag_bars
     = map to_row (filter row_defined (add_indicators short_window_params zigzag_bars))"
    by blast+
  have r0: "\<not> row_defined (add_indicators short_window_params zigzag_bars ! 0)"
    using rd[of 0] len wu by simp
  have r1: "\<not> row_defined (add_indicators short_window_params zigzag_bars ! 1)"
    using rd[of 1] len wu by simp
  have r2: "row_defined (add_indicators short_window_params zigzag_bars ! 2)"
    unfolding rd[of 2, unfolded len, simplified] wu by (simp add: ind_defs)
  have r3: "row_defined (add_indicators short_window_params zigzag_bars ! 3)"
    unfolding rd[of 3, unfolded len, simplified] wu by (simp add: ind_defs)
  have ts: "map timestamp (indicator_rows short_window_params zigzag_bars) = [2, 3]"
    unfolding rows by (simp add: ind_defs to_row_def)
  show ?thesis using l len wu r0 r1 r2 r3 ts by simp
qed


subsection \<open>The reported Sharpe-like ratio\<close>










lemma py_round_zero [simp]: "py_round n 0 = 0"
  by (simp add: py_round_def round_half_even_def)


lemma sample_std_nonneg: "0 \<le> sample_std xs" if "2 \<le> length xs"
proof -
  have "0 \<le> sum_list (map (\<lambda>x. (x - mean xs)\<^sup>2) xs)"
    by (rule sum_list_nonneg) auto
  moreover have "0 < real (length xs) - 1" using that by simp
  ultimately have "0 \<le> sum_list (map (\<lambda>x. (x - mean xs)\<^sup>2) xs) / (real (length xs) - 1)"
    by (rule divide_nonneg_pos)
  then show ?thesis by (simp add: sample_std_def)
qed






subsection \<open>The probability overlay and its neutral series\<close>








lemma alt_rows_length [simp]: "length alt_rows = 130"
  by (simp add: alt_rows_def)







lemma length_write_back [simp]: "length (write_back probs ws) = length probs"
  by (induction ws arbitrary: probs) auto















end
